theory Spec2Isabelle
  imports Main "HOL-Library.AList"
begin

section \<open>Node primitives used by the plugin\<close>

text \<open>
  The plugin \<^verbatim>\<open>mfsu.ts\<close> calls a handful of Node and JavaScript built-ins:
  \<^verbatim>\<open>path.join\<close>, \<^verbatim>\<open>path.parse(p).ext\<close>, \<^verbatim>\<open>RegExp.test\<close>,
  \<^verbatim>\<open>fs.existsSync\<close> and \<^verbatim>\<open>fs.readFileSync\<close>.
  They are modelled here for POSIX paths, with strings as lists of characters.
\<close>

subsection \<open>Paths\<close>

text \<open>\<^verbatim>\<open>s.split('/')\<close>: the pieces between slashes, empty pieces included.\<close>

fun split_slash :: "string \<Rightarrow> string list" where
  "split_slash [] = [[]]"
| "split_slash (c # cs) =
     (if c = CHR ''/'' then [] # split_slash cs
      else (case split_slash cs of
              [] \<Rightarrow> [[c]]
            | w # ws \<Rightarrow> (c # w) # ws))"

text \<open>\<^verbatim>\<open>xs.join('/')\<close>.\<close>

fun join_slash :: "string list \<Rightarrow> string" where
  "join_slash [] = []"
| "join_slash [x] = x"
| "join_slash (x # y # ys) = x @ CHR ''/'' # join_slash (y # ys)"

text \<open>The non-empty pieces of a path or of a module specifier.\<close>

definition segments :: "string \<Rightarrow> string list" where
  "segments p = filter (\<lambda>s. s \<noteq> []) (split_slash p)"

definition isAbsolute :: "string \<Rightarrow> bool" where
  "isAbsolute p = (case p of [] \<Rightarrow> False | c # _ \<Rightarrow> c = CHR ''/'')"

text \<open>
  \<^verbatim>\<open>normalizeString(path, allowAboveRoot)\<close> of Node's \<^verbatim>\<open>path\<close> module: empty
  pieces and \<^verbatim>\<open>.\<close> are dropped, \<^verbatim>\<open>..\<close> removes the piece before it; at the top
  of a relative path \<^verbatim>\<open>..\<close> is kept, at the top of an absolute one it is dropped.
  The second argument is the result so far, last piece first.
\<close>

fun normalizeString :: "bool \<Rightarrow> string list \<Rightarrow> string list \<Rightarrow> string list" where
  "normalizeString allowAboveRoot res [] = rev res"
| "normalizeString allowAboveRoot res (s # ss) =
     (if s = [] \<or> s = ''.'' then normalizeString allowAboveRoot res ss
      else if s = ''..'' then
        (case res of
           r # rs \<Rightarrow>
             if r \<noteq> ''..'' then normalizeString allowAboveRoot rs ss
             else if allowAboveRoot then normalizeString allowAboveRoot (''..'' # res) ss
             else normalizeString allowAboveRoot res ss
         | [] \<Rightarrow>
             if allowAboveRoot then normalizeString allowAboveRoot [''..''] ss
             else normalizeString allowAboveRoot res ss)
      else normalizeString allowAboveRoot (s # res) ss)"

text \<open>\<^verbatim>\<open>path.normalize\<close>.\<close>

definition normalize :: "string \<Rightarrow> string" where
  "normalize path =
     (if path = [] then ''.''
      else
        let isAbs = isAbsolute path;
            trailingSeparator = (last path = CHR ''/'');
            p = join_slash (normalizeString (\<not> isAbs) [] (split_slash path))
        in if p = [] then (if isAbs then ''/'' else if trailingSeparator then ''./'' else ''.'')
           else
             let q = (if trailingSeparator then p @ ''/'' else p)
             in if isAbs then CHR ''/'' # q else q)"

text \<open>\<^verbatim>\<open>path.join(...args)\<close>: the non-empty arguments joined by a slash, normalised.\<close>

definition join :: "string list \<Rightarrow> string" where
  "join args =
     (let joined = join_slash (filter (\<lambda>a. a \<noteq> []) args)
      in if joined = [] then ''.'' else normalize joined)"

text \<open>
  \<^verbatim>\<open>path.parse(p).base\<close>: the last piece of the path, trailing slashes ignored.
\<close>

definition parse_base :: "string \<Rightarrow> string" where
  "parse_base p =
     rev (takeWhile (\<lambda>c. c \<noteq> CHR ''/'') (dropWhile (\<lambda>c. c = CHR ''/'') (rev p)))"

text \<open>
  \<^verbatim>\<open>path.parse(p).ext\<close>: from the last dot of the base to its end; empty when the
  base has no dot, when its only dot is its first character, or when the base is
  \<^verbatim>\<open>..\<close>.
\<close>

definition parse_ext :: "string \<Rightarrow> string" where
  "parse_ext p =
     (let base = parse_base p;
          after = rev (takeWhile (\<lambda>c. c \<noteq> CHR ''.'') (rev base))
      in if CHR ''.'' \<notin> set base then []
         else if length base = length after + 1 then []
         else if base = ''..'' then []
         else CHR ''.'' # after)"

subsection \<open>Regular expressions\<close>

text \<open>
  The two regular expressions that the plugin writes out, \<^verbatim>\<open>/\.mfsu/\<close> and
  \<^verbatim>\<open>/remoteEntry.js/\<close>, are sequences of literal characters and the wildcard
  \<^verbatim>\<open>.\<close>, which matches any character but a line terminator.
\<close>

datatype rx = Lit char | AnyChar

fun rx_char :: "rx \<Rightarrow> char \<Rightarrow> bool" where
  "rx_char (Lit l) c = (c = l)"
| "rx_char AnyChar c = (c \<noteq> CHR 0x0A \<and> c \<noteq> CHR 0x0D)"

text \<open>The rest of the string after a match of the pattern at its start.\<close>

fun rx_prefix :: "rx list \<Rightarrow> string \<Rightarrow> string option" where
  "rx_prefix [] s = Some s"
| "rx_prefix (r # rs) [] = None"
| "rx_prefix (r # rs) (c # cs) = (if rx_char r c then rx_prefix rs cs else None)"

text \<open>\<^verbatim>\<open>re.test(s)\<close> for an unanchored pattern: a match at some position.\<close>

fun rx_test :: "rx list \<Rightarrow> string \<Rightarrow> bool" where
  "rx_test rs [] = (rx_prefix rs [] \<noteq> None)"
| "rx_test rs (c # cs) = (rx_prefix rs (c # cs) \<noteq> None \<or> rx_test rs cs)"


text \<open>\<^verbatim>\<open>/remoteEntry.js/\<close>: the dot is not escaped, so it is a wildcard.\<close>

definition re_remoteEntry :: "rx list" where
  "re_remoteEntry = map Lit ''remoteEntry'' @ [AnyChar] @ map Lit ''js''"

subsection \<open>The file system\<close>

text \<open>A file holds bytes.\<close>

datatype node = File string | Dir

type_synonym fs = "string \<Rightarrow> node option"

definition existsSync :: "fs \<Rightarrow> string \<Rightarrow> bool" where
  "existsSync disk p = (disk p \<noteq> None)"

datatype error =
    AssertionError string
  | Error string
  | SyntaxError string
  | TypeError string
  | ENOENT string
  | EISDIR string
  | UnresolvedDependency string
  | BuildFailure

subsection \<open>Decoding UTF-8\<close>

text \<open>
  \<^verbatim>\<open>readFileSync(p, 'utf-8')\<close> decodes the bytes of the file into a string. Each
  well-formed sequence gives its character; each ill-formed one is replaced, a lead byte
  together with the continuation bytes that fit it by one U+FFFD, and decoding goes on
  at the byte that did not fit. A text is written here in UTF-8, as it goes out when
  the string is sent: a well-formed sequence is the bytes it was decoded from, and
  U+FFFD is the three bytes \<^verbatim>\<open>EF BF BD\<close>.
\<close>

definition byte_in :: "nat \<Rightarrow> nat \<Rightarrow> char \<Rightarrow> bool" where
  "byte_in lo hi c = (lo \<le> of_char c \<and> (of_char c :: nat) \<le> hi)"

definition replacement_character :: string where
  "replacement_character = [CHR 0xEF, CHR 0xBF, CHR 0xBD]"

text \<open>
  The bounds of the first continuation byte: narrower after the lead bytes
  \<^verbatim>\<open>E0\<close> and \<^verbatim>\<open>F0\<close> (no overlong forms), \<^verbatim>\<open>ED\<close> (no surrogates) and
  \<^verbatim>\<open>F4\<close> (nothing above U+10FFFF).
\<close>

definition first_lower :: "char \<Rightarrow> nat" where
  "first_lower b = (if b = CHR 0xE0 then 0xA0 else if b = CHR 0xF0 then 0x90 else 0x80)"

definition first_upper :: "char \<Rightarrow> nat" where
  "first_upper b = (if b = CHR 0xED then 0x9F else if b = CHR 0xF4 then 0x8F else 0xBF)"

fun utf8_decode :: "string \<Rightarrow> string" where
  "utf8_decode [] = []"
| "utf8_decode (b # bs) =
     (if byte_in 0x00 0x7F b then b # utf8_decode bs
      else if byte_in 0xC2 0xDF b then
        (case bs of
           [] \<Rightarrow> replacement_character
         | c1 # r1 \<Rightarrow>
             if byte_in 0x80 0xBF c1 then b # c1 # utf8_decode r1
             else replacement_character @ utf8_decode bs)
      else if byte_in 0xE0 0xEF b then
        (case bs of
           [] \<Rightarrow> replacement_character
         | c1 # r1 \<Rightarrow>
             if byte_in (first_lower b) (first_upper b) c1 then
               (case r1 of
                  [] \<Rightarrow> replacement_character
                | c2 # r2 \<Rightarrow>
                    if byte_in 0x80 0xBF c2 then b # c1 # c2 # utf8_decode r2
                    else replacement_character @ utf8_decode r1)
             else replacement_character @ utf8_decode bs)
      else if byte_in 0xF0 0xF4 b then
        (case bs of
           [] \<Rightarrow> replacement_character
         | c1 # r1 \<Rightarrow>
             if byte_in (first_lower b) (first_upper b) c1 then
               (case r1 of
                  [] \<Rightarrow> replacement_character
                | c2 # r2 \<Rightarrow>
                    if byte_in 0x80 0xBF c2 then
                      (case r2 of
                         [] \<Rightarrow> replacement_character
                       | c3 # r3 \<Rightarrow>
                           if byte_in 0x80 0xBF c3 then b # c1 # c2 # c3 # utf8_decode r3
                           else replacement_character @ utf8_decode r2)
                    else replacement_character @ utf8_decode r1)
             else replacement_character @ utf8_decode bs)
      else replacement_character @ utf8_decode bs)"

text \<open>Well-formed UTF-8: the byte sequences of the Unicode standard, and no others.\<close>

fun utf8_wellformed :: "string \<Rightarrow> bool" where
  "utf8_wellformed [] = True"
| "utf8_wellformed (b # bs) =
     (if byte_in 0x00 0x7F b then utf8_wellformed bs
      else if byte_in 0xC2 0xDF b then
        (case bs of
           c1 # r1 \<Rightarrow> byte_in 0x80 0xBF c1 \<and> utf8_wellformed r1
         | _ \<Rightarrow> False)
      else if byte_in 0xE0 0xEF b then
        (case bs of
           c1 # c2 # r2 \<Rightarrow>
             byte_in (first_lower b) (first_upper b) c1 \<and> byte_in 0x80 0xBF c2
             \<and> utf8_wellformed r2
         | _ \<Rightarrow> False)
      else if byte_in 0xF0 0xF4 b then
        (case bs of
           c1 # c2 # c3 # r3 \<Rightarrow>
             byte_in (first_lower b) (first_upper b) c1 \<and> byte_in 0x80 0xBF c2
             \<and> byte_in 0x80 0xBF c3 \<and> utf8_wellformed r3
         | _ \<Rightarrow> False)
      else False)"

text \<open>
  \<^verbatim>\<open>readFileSync(p, 'utf-8')\<close>: the decoded content of the file; it throws on a
  missing path and on a directory.
\<close>

definition readFileSync :: "fs \<Rightarrow> string \<Rightarrow> error + string" where
  "readFileSync disk p =
     (case disk p of
        None \<Rightarrow> Inl (ENOENT p)
      | Some Dir \<Rightarrow> Inl (EISDIR p)
      | Some (File bytes) \<Rightarrow> Inr (utf8_decode bytes))"

section \<open>Configuration\<close>

datatype TMode = Production | Development

record mode_config =
  mode_output :: "string option"

record mfsu_config =
  development :: "mode_config option"
  production :: "mode_config option"
  mfName :: "string option"

record user_config =
  mfsu :: "mfsu_config option"
  outputPath :: "string option"

record api =
  cwd :: string
  absTmpPath :: string
  userConfig :: user_config
  config :: user_config

text \<open>
  JavaScript's truthiness of an optional string: \<^verbatim>\<open>undefined\<close> and the empty string
  are falsy.
\<close>

definition truthy :: "string option \<Rightarrow> bool" where
  "truthy v = (case v of None \<Rightarrow> False | Some s \<Rightarrow> s \<noteq> [])"

text \<open>\<^verbatim>\<open>c.mfsu?.development?.output\<close> and \<^verbatim>\<open>c.mfsu?.production?.output\<close>.\<close>

definition development_output :: "user_config \<Rightarrow> string option" where
  "development_output c = Option.bind (Option.bind (mfsu c) development) mode_output"

definition production_output :: "user_config \<Rightarrow> string option" where
  "production_output c = Option.bind (Option.bind (mfsu c) production) mode_output"


text \<open>\<^verbatim>\<open>getMfsuPath(api, { mode })\<close>.\<close>

definition getMfsuPath :: "api \<Rightarrow> TMode \<Rightarrow> string" where
  "getMfsuPath a mode =
     (case mode of
        Development \<Rightarrow>
          (let configPath = development_output (userConfig a)
           in if truthy configPath then join [cwd a, the configPath]
              else join [absTmpPath a, ''.cache'', ''.mfsu''])
      | Production \<Rightarrow>
          (let configPath = production_output (userConfig a)
           in if truthy configPath then join [cwd a, the configPath]
              else join [cwd a, ''./.mfsu-production'']))"

section \<open>The plugin's state\<close>

text \<open>
  A Dependency Record without its key: the version read from the package manifest and
  the resolved entry file. A Snapshot maps specifiers to records, in insertion order as
  a JavaScript object does.
\<close>

record dependency =
  version :: string
  dep_file :: string

type_synonym snapshot = "(string \<times> dependency) list"

text \<open>
  The variables closed over by the plugin function: \<^verbatim>\<open>webpackAlias\<close>,
  \<^verbatim>\<open>webpackExternals\<close>, \<^verbatim>\<open>publicPath\<close>, \<^verbatim>\<open>mode\<close>, and of the two objects
  \<^verbatim>\<open>depInfo\<close> and \<^verbatim>\<open>depBuilder\<close> the fields the plugin reads:
  \<^verbatim>\<open>depInfo.data.deps\<close> and \<^verbatim>\<open>depBuilder.tmpDir\<close>.
\<close>

record plugin =
  webpackAlias :: "(string \<times> string) list"
  webpackExternals :: "(string \<times> string) list"
  publicPath :: string
  mode :: TMode
  depInfo_deps :: snapshot
  depBuilder_tmpDir :: string

text \<open>The state the plugin function starts with.\<close>

definition initial_plugin :: plugin where
  "initial_plugin =
     \<lparr>webpackAlias = [], webpackExternals = [], publicPath = ''/'',
      mode = Development, depInfo_deps = [], depBuilder_tmpDir = []\<rparr>"

text \<open>
  What the plugin calls on its collaborators, in the order of the calls:
  \<^verbatim>\<open>depBuilder.build\<close> with the dependencies and the alias table,
  \<^verbatim>\<open>depInfo.writeCache\<close>, \<^verbatim>\<open>server.sockWrite\<close> with the reload message, and
  \<^verbatim>\<open>copy\<close> with source and destination.
\<close>

datatype event =
    Build snapshot "(string \<times> string) list"
  | WriteCache
  | SockWrite
  | Copy string string

text \<open>
  The world outside the plugin: the file system, the persisted Snapshot (the content of
  the cache file), the calls made so far, and whether there is a dev server
  for \<^verbatim>\<open>api.getServer()\<close> to return: there is none under the command \<^verbatim>\<open>mfsu\<close>.
\<close>

record world =
  disk :: fs
  cache :: snapshot
  trace :: "event list"
  dev_server :: bool


text \<open>\<^verbatim>\<open>xs[i]\<close>, which is \<^verbatim>\<open>undefined\<close> out of range.\<close>

definition at_index :: "'a list \<Rightarrow> nat \<Rightarrow> 'a option" where
  "at_index xs i = (if i < length xs then Some (xs ! i) else None)"

section \<open>Start-up\<close>

text \<open>
  The command line as \<^verbatim>\<open>yargs\<close> hands it over: the positional arguments
  \<^verbatim>\<open>args._\<close>, \<^verbatim>\<open>args.mode\<close> and the truthiness of \<^verbatim>\<open>args.force\<close>.
\<close>

record args =
  positional :: "string list"
  mode_arg :: "string option"
  force :: bool







section \<open>The bundler configuration hook\<close>








text \<open>
  A plugin instance pushed onto \<^verbatim>\<open>memo.plugins\<close>: either one that was there, or the
  \<^verbatim>\<open>ModuleFederationPlugin\<close> with its name and its remotes.
\<close>

datatype bundler_plugin =
    OtherPlugin string
  | ModuleFederationPlugin string "(string \<times> string) list"



section \<open>The artifact request interceptor\<close>

record request =
  req_path :: string
  req_url :: string

text \<open>
  What the middleware does with a request: it calls \<^verbatim>\<open>next()\<close>, or it sets headers
  (in this order) and sends a body.
\<close>

datatype response = Next | Send "(string \<times> string) list" string

text \<open>
  The middleware added by \<^verbatim>\<open>addBeforeMiddlewares\<close>. Two things it uses are
  parameters:
  \<^item> the regular expression engine: \<open>regexp_replace source subject\<close> is the result of
    \<^verbatim>\<open>subject.replace(new RegExp(source), '/')\<close>, or the \<^verbatim>\<open>SyntaxError\<close> that
    \<^verbatim>\<open>new RegExp(source)\<close> throws; the source is \<^verbatim>\<open>`^${publicPath}`\<close>;
  \<^item> the table of the \<^verbatim>\<open>mime\<close> package.

  The pattern is compiled first, before the feature is looked at.
  \<^verbatim>\<open>readFileSync\<close> can throw as well; the middleware catches neither.
\<close>

definition middleware ::
  "(string \<Rightarrow> string \<Rightarrow> error + string) \<Rightarrow> (string \<Rightarrow> string) \<Rightarrow> api \<Rightarrow> plugin \<Rightarrow> fs
     \<Rightarrow> request \<Rightarrow> error + response" where
  "middleware regexp_replace mime_lookup a st d req =
     (case regexp_replace (CHR ''^'' # publicPath st) (req_path req) of
        Inl e \<Rightarrow> Inl e
      | Inr replaced \<Rightarrow>
          let filePath = drop 1 replaced;
              mfsuPath = getMfsuPath a Development
          in if mfsu (userConfig a) = None \<or> req_path req = ''/''
                \<or> \<not> existsSync d (join [mfsuPath, filePath])
             then Inr Next
             else
               (case readFileSync d (join [mfsuPath, filePath]) of
                  Inl e \<Rightarrow> Inl e
                | Inr content \<Rightarrow>
                    Inr (Send
                      ((''content-type'', mime_lookup (parse_ext (req_path req)))
                       # (if \<not> rx_test re_remoteEntry (req_url req)
                          then [(''cache-control'', ''max-age=31536000,immutable'')]
                          else []))
                      content)))"

section \<open>Dependency tracker and build orchestrator\<close>

text \<open>
  The classes \<^verbatim>\<open>DepInfo\<close> and \<^verbatim>\<open>DepBuilder\<close> and the helper \<^verbatim>\<open>copy\<close> are
  imported by the plugin; their sources are not part of the plugin file. What the plugin
  needs of them is modelled from the specification.
\<close>

definition snapshot_keys :: "snapshot \<Rightarrow> string set" where
  "snapshot_keys s = set (map fst s)"

text \<open>
  Modelled from the spec: the \<^verbatim>\<open>shouldBuild\<close> decision of \<^verbatim>\<open>DepInfo.loadTmpDeps\<close>.
  It is true iff the set of specifier keys of the new resolution differs from the
  persisted Snapshot's keys, or a shared specifier resolves to a different version than
  in the persisted Snapshot.
\<close>

definition shouldBuild :: "snapshot \<Rightarrow> snapshot \<Rightarrow> bool" where
  "shouldBuild persisted resolved =
     (snapshot_keys resolved \<noteq> snapshot_keys persisted
      \<or> (\<exists>k \<in> snapshot_keys resolved \<inter> snapshot_keys persisted.
            map_option version (map_of resolved k) \<noteq> map_option version (map_of persisted k)))"

text \<open>
  Modelled from the spec: \<^verbatim>\<open>DepInfo.loadTmpDeps\<close>, the end-of-pass finalisation. Its
  first argument is the outcome of resolving the pending specifiers with the version
  resolver: an error, which is propagated, or the new resolution, which becomes
  \<^verbatim>\<open>depInfo.data.deps\<close> and is compared with the persisted Snapshot.
\<close>

definition loadTmpDeps :: "error + snapshot \<Rightarrow> plugin \<Rightarrow> world \<Rightarrow> error + bool \<times> plugin" where
  "loadTmpDeps resolved st w =
     (case resolved of
        Inl e \<Rightarrow> Inl e
      | Inr deps \<Rightarrow> Inr (shouldBuild (cache w) deps, st\<lparr>depInfo_deps := deps\<rparr>))"

text \<open>
  Modelled from the spec: \<^verbatim>\<open>DepInfo.writeCache\<close> overwrites the persisted Snapshot with
  the finalised dependency set.
\<close>

definition writeCache :: "plugin \<Rightarrow> world \<Rightarrow> world" where
  "writeCache st w = w\<lparr>cache := depInfo_deps st, trace := trace w @ [WriteCache]\<rparr>"

text \<open>
  What one run of the external bundler does, as far as the plugin can observe it: the
  two arguments of the completion notification (the truthiness of \<^verbatim>\<open>err\<close> and the
  value of \<^verbatim>\<open>stats.hasErrors()\<close>, which is read only when \<^verbatim>\<open>err\<close> is falsy) and
  the files it leaves on disk.
\<close>

record build_outcome =
  build_err :: bool
  stats_hasErrors :: bool
  emitted :: "fs \<Rightarrow> fs"

text \<open>
  Modelled from the spec: \<^verbatim>\<open>DepBuilder.build\<close> drives the external bundler once and
  reports its result through one completion notification: it calls the callback. A
  build failure is an error or error-bearing stats of the bundler; the command exits
  non-zero on a build failure, and the callback that the plugin passes only returns on
  one, so the awaited call itself fails with the build failure. What the callback
  throws, the call throws.
\<close>

definition depBuilder_build ::
  "build_outcome \<Rightarrow> snapshot \<Rightarrow> (string \<times> string) list
     \<Rightarrow> (bool \<Rightarrow> bool \<Rightarrow> world \<Rightarrow> error option \<times> world) \<Rightarrow> world
     \<Rightarrow> error option \<times> world" where
  "depBuilder_build outcome deps alias callback w =
     (let w1 = w\<lparr>disk := emitted outcome (disk w), trace := trace w @ [Build deps alias]\<rparr>;
          (thrown, w2) = callback (build_err outcome) (stats_hasErrors outcome) w1
      in case thrown of
           Some e \<Rightarrow> (Some e, w2)
         | None \<Rightarrow>
             if build_err outcome \<or> stats_hasErrors outcome then (Some BuildFailure, w2)
             else (None, w2))"

text \<open>
  A directory as \<^verbatim>\<open>path.join\<close> returns it can end with a slash; the paths of what
  is in it are formed without that slash.
\<close>

definition strip_trailing_slash :: "string \<Rightarrow> string" where
  "strip_trailing_slash p = rev (dropWhile (\<lambda>c. c = CHR ''/'') (rev p))"

text \<open>
  The part of \<open>p\<close> after the directory \<open>dir\<close>: empty for the directory itself,
  starting with a slash for a path below it.
\<close>

definition relative_to :: "string \<Rightarrow> string \<Rightarrow> string option" where
  "relative_to dir p =
     (if p = dir then Some []
      else if take (Suc (length dir)) p = dir @ ''/'' then Some (drop (length dir) p)
      else None)"

text \<open>
  Modelled from the spec: \<^verbatim>\<open>copy(src, dst)\<close> copies the artifact into the destination
  directory, overwriting any prior copy there: what exists below \<open>src\<close> is afterwards
  found at the same relative path below \<open>dst\<close>; everything else is as before.
\<close>

definition copy_files :: "string \<Rightarrow> string \<Rightarrow> fs \<Rightarrow> fs" where
  "copy_files src dst d =
     (\<lambda>p. case relative_to (strip_trailing_slash dst) p of
            None \<Rightarrow> d p
          | Some rest \<Rightarrow>
              (case d (strip_trailing_slash src @ rest) of
                 None \<Rightarrow> d p
               | Some n \<Rightarrow> Some n))"

text \<open>
  The call \<^verbatim>\<open>copy(src, dst)\<close> as the plugin makes it: the files are copied and the
  call is recorded.
\<close>

definition copy :: "string \<Rightarrow> string \<Rightarrow> world \<Rightarrow> world" where
  "copy src dst w = w\<lparr>disk := copy_files src dst (disk w), trace := trace w @ [Copy src dst]\<rparr>"

subsection \<open>buildDeps\<close>

text \<open>
  The callback \<^verbatim>\<open>onBuildComplete(err, stats)\<close> that \<^verbatim>\<open>buildDeps\<close> hands to the
  builder. In development mode it ends with \<^verbatim>\<open>api.getServer().sockWrite(...)\<close>,
  which throws a \<^verbatim>\<open>TypeError\<close> when there is no dev server, after the cache was
  written (the error names the property that could not be read). The result is the error
  thrown, if any, and the world.
\<close>

definition onBuildComplete ::
  "plugin \<Rightarrow> bool \<Rightarrow> bool \<Rightarrow> world \<Rightarrow> error option \<times> world" where
  "onBuildComplete st err hasErrors w =
     (if err \<or> hasErrors then (None, w)
      else
        let w1 = writeCache st w
        in if mode st = Development
           then (if dev_server w1 then (None, w1\<lparr>trace := trace w1 @ [SockWrite]\<rparr>)
                 else (Some (TypeError ''sockWrite''), w1))
           else (None, w1))"

text \<open>
  \<^verbatim>\<open>buildDeps(opts)\<close>. The result is the error thrown, if any, with the state and the
  world as they are when the function returns or throws.
\<close>

definition buildDeps ::
  "api \<Rightarrow> bool \<Rightarrow> error + snapshot \<Rightarrow> build_outcome \<Rightarrow> plugin \<Rightarrow> world
     \<Rightarrow> error option \<times> plugin \<times> world" where
  "buildDeps a opts_force resolved outcome st w =
     (case loadTmpDeps resolved st w of
        Inl e \<Rightarrow> (Some e, st, w)
      | Inr (should, st1) \<Rightarrow>
          let (thrown, w1) =
                (if opts_force \<or> should
                 then depBuilder_build outcome (depInfo_deps st1) (webpackAlias st1)
                        (onBuildComplete st1) w
                 else (None, w))
          in case thrown of
               Some e \<Rightarrow> (Some e, st1, w1)
             | None \<Rightarrow>
                 if mode st1 = Production
                 then (None, st1,
                       copy (depBuilder_tmpDir st1)
                         (join [cwd a,
                                if truthy (outputPath (userConfig a))
                                then the (outputPath (userConfig a)) else ''./dist''])
                         w1)
                 else (None, st1, w1))"

subsection \<open>Callers of buildDeps\<close>

text \<open>The hooks \<^verbatim>\<open>api.onBuildComplete\<close> and \<^verbatim>\<open>api.onDevCompileDone\<close>.\<close>

definition api_onBuildComplete ::
  "api \<Rightarrow> bool \<Rightarrow> error + snapshot \<Rightarrow> build_outcome \<Rightarrow> plugin \<Rightarrow> world
     \<Rightarrow> error option \<times> plugin \<times> world" where
  "api_onBuildComplete a err resolved outcome st w =
     (if err then (None, st, w) else buildDeps a False resolved outcome st w)"

definition api_onDevCompileDone ::
  "api \<Rightarrow> error + snapshot \<Rightarrow> build_outcome \<Rightarrow> plugin \<Rightarrow> world
     \<Rightarrow> error option \<times> plugin \<times> world" where
  "api_onDevCompileDone a resolved outcome st w = buildDeps a False resolved outcome st w"

text \<open>
  The command \<^verbatim>\<open>mfsu\<close> registered with \<^verbatim>\<open>api.registerCommand\<close>. A command that
  throws makes the process exit with a non-zero code.
\<close>

definition mfsu_command ::
  "api \<Rightarrow> args \<Rightarrow> error + snapshot \<Rightarrow> build_outcome \<Rightarrow> plugin \<Rightarrow> world
     \<Rightarrow> error option \<times> plugin \<times> world" where
  "mfsu_command a ar resolved outcome st w =
     (if at_index (positional ar) 0 = Some ''build''
      then buildDeps a (force ar) resolved outcome st w
      else (Some (Error (''[MFSU] Unsupported subcommand ''
                   @ (case at_index (positional ar) 0 of None \<Rightarrow> ''undefined'' | Some s \<Rightarrow> s)
                   @ '' for mfsu.'')),
            st, w))"

section \<open>Version resolver\<close>

text \<open>
  The plugin file comes with the tests of \<^verbatim>\<open>getDepVersion\<close>; the function itself is in
  a file that is not part of it. The resolver is modelled from the algorithm of the
  specification.

  The installed tree is given by its package manifests: for a directory, named by its
  pieces from the file-system root, the version that the manifest in this directory
  declares, if there is one.
\<close>

type_synonym manifests = "string list \<Rightarrow> string option"

type_synonym alias_table = "(string \<times> string) list"

text \<open>The dependency-install directory of a directory.\<close>

definition install_dir :: string where
  "install_dir = ''node_modules''"

text \<open>
  Modelled from the spec: the split of a specifier into the package root name, with a
  scoped \<^verbatim>\<open>@scope/name\<close> as one unit, and the remainder sub-path.
\<close>

definition is_scope :: "string \<Rightarrow> bool" where
  "is_scope s = (case s of [] \<Rightarrow> False | c # _ \<Rightarrow> c = CHR ''@'')"

definition package_root :: "string list \<Rightarrow> string list \<times> string list" where
  "package_root segs =
     (case segs of
        [] \<Rightarrow> ([], [])
      | s # ss \<Rightarrow> if is_scope s then (take 2 segs, drop 2 segs) else ([s], ss))"

text \<open>
  Modelled from the spec: the alias key of a specifier is the specifier itself or its
  longest prefix (at a slash) that is a key of the alias table. The result is the number
  of pieces of the key and the value it is mapped to.
\<close>

fun alias_prefix :: "alias_table \<Rightarrow> string list \<Rightarrow> nat \<Rightarrow> (nat \<times> string) option" where
  "alias_prefix al segs 0 = None"
| "alias_prefix al segs (Suc n) =
     (case map_of al (join_slash (take (Suc n) segs)) of
        Some target \<Rightarrow> Some (Suc n, target)
      | None \<Rightarrow> alias_prefix al segs n)"

definition alias_lookup :: "alias_table \<Rightarrow> string \<Rightarrow> (nat \<times> string) option" where
  "alias_lookup al s = alias_prefix al (segments s) (length (segments s))"

text \<open>
  Modelled from the spec: the search for the manifest of an installed package. The
  install directory of the start directory is probed for the package root name; if the
  manifest is absent there, the search walks upward through the ancestors, the
  file-system root included. The directory is given innermost piece first. The result is
  the probed directory and the declared version.
\<close>

fun probe_up :: "manifests \<Rightarrow> string list \<Rightarrow> string list \<Rightarrow> (string list \<times> string) option" where
  "probe_up t [] pkg =
     (case t (install_dir # pkg) of
        Some v \<Rightarrow> Some (install_dir # pkg, v)
      | None \<Rightarrow> None)"
| "probe_up t (d # ds) pkg =
     (case t (rev (d # ds) @ install_dir # pkg) of
        Some v \<Rightarrow> Some (rev (d # ds) @ install_dir # pkg, v)
      | None \<Rightarrow> probe_up t ds pkg)"

text \<open>
  Modelled from the spec: the nearest ancestor manifest of an absolute location, found
  by walking upward from it. The location is given innermost piece first.
\<close>

fun manifest_up :: "manifests \<Rightarrow> string list \<Rightarrow> (string list \<times> string) option" where
  "manifest_up t [] = (case t [] of Some v \<Rightarrow> Some ([], v) | None \<Rightarrow> None)"
| "manifest_up t (d # ds) =
     (case t (rev (d # ds)) of
        Some v \<Rightarrow> Some (rev (d # ds), v)
      | None \<Rightarrow> manifest_up t ds)"

text \<open>
  Modelled from the spec: steps 4 and 5 for an absolute location \<open>loc\<close> (its pieces),
  reached for the specifier \<open>s\<close>.
\<close>

definition resolve_absolute :: "manifests \<Rightarrow> string \<Rightarrow> string list \<Rightarrow> error + dependency" where
  "resolve_absolute t s loc =
     (case manifest_up t (rev loc) of
        None \<Rightarrow> Inl (UnresolvedDependency s)
      | Some (dir, v) \<Rightarrow> Inr \<lparr>version = v, dep_file = CHR ''/'' # join_slash loc\<rparr>)"

text \<open>
  Modelled from the spec: steps 3 to 5 for a normal install-tree lookup from \<open>cwd\<close>.
\<close>

definition resolve_installed :: "manifests \<Rightarrow> string \<Rightarrow> string \<Rightarrow> error + dependency" where
  "resolve_installed t cwd_dir s =
     (let (pkg, remainder) = package_root (segments s)
      in case probe_up t (rev (segments cwd_dir)) pkg of
           None \<Rightarrow> Inl (UnresolvedDependency s)
         | Some (dir, v) \<Rightarrow>
             Inr \<lparr>version = v, dep_file = CHR ''/'' # join_slash (dir @ remainder)\<rparr>)"

text \<open>
  Modelled from the spec: \<^verbatim>\<open>resolve(specifier, cwd, aliasTable)\<close>.
  \<^enum> An absolute specifier skips the alias table.
  \<^enum> If the specifier or its longest matching prefix is an alias key: a value that is an
    absolute path is substituted, preserving the remainder of the sub-path; with a value
    that is itself a specifier the resolution restarts.
  \<^enum> Otherwise the specifier is looked up in the install tree.

  The specification requires alias chains to terminate and leaves a cyclic table
  unspecified. The first argument bounds the number of restarts; the result \<open>None\<close>
  says that the bound was reached, that is, that the resolution has not returned.
\<close>

fun resolve ::
  "nat \<Rightarrow> manifests \<Rightarrow> alias_table \<Rightarrow> string \<Rightarrow> string \<Rightarrow> (error + dependency) option" where
  "resolve 0 t al cwd_dir s = None"
| "resolve (Suc n) t al cwd_dir s =
     (if isAbsolute s then Some (resolve_absolute t s (segments s))
      else
        (case alias_lookup al s of
           Some (k, target) \<Rightarrow>
             if isAbsolute target
             then Some (resolve_absolute t s (segments target @ drop k (segments s)))
             else resolve n t al cwd_dir target
         | None \<Rightarrow> Some (resolve_installed t cwd_dir s)))"

text \<open>
  \<^verbatim>\<open>getDepVersion({ dep, cwd, webpackAlias })\<close>, as the tests call it: the version of
  the resolved record.
\<close>

definition getDepVersion ::
  "nat \<Rightarrow> manifests \<Rightarrow> string \<Rightarrow> string \<Rightarrow> alias_table \<Rightarrow> (error + string) option" where
  "getDepVersion n t dep cwd_dir al =
     (case resolve n t al cwd_dir dep of
        None \<Rightarrow> None
      | Some (Inl e) \<Rightarrow> Some (Inl e)
      | Some (Inr r) \<Rightarrow> Some (Inr (version r)))"

section \<open>Observations on the trace\<close>

fun is_build :: "event \<Rightarrow> bool" where
  "is_build (Build deps al) = True"
| "is_build _ = False"

fun is_writeCache :: "event \<Rightarrow> bool" where
  "is_writeCache WriteCache = True"
| "is_writeCache _ = False"


text \<open>The calls made between the world \<open>w\<close> and the later world \<open>w'\<close>.\<close>

definition new_events :: "world \<Rightarrow> world \<Rightarrow> event list" where
  "new_events w w' = drop (length (trace w)) (trace w')"

section \<open>Example inputs\<close>

text \<open>A project that configures only the development output.\<close>

definition api_dev_configured :: api where
  "api_dev_configured =
     \<lparr>cwd = ''/proj'', absTmpPath = ''/proj/src/.umi'',
      userConfig = \<lparr>mfsu = Some \<lparr>development = Some \<lparr>mode_output = Some ''.mfsu-dev''\<rparr>,
                                  production = None, mfName = None\<rparr>,
                    outputPath = None\<rparr>,
      config = \<lparr>mfsu = Some \<lparr>development = Some \<lparr>mode_output = Some ''.mfsu-dev''\<rparr>,
                              production = None, mfName = None\<rparr>,
                outputPath = None\<rparr>\<rparr>"

text \<open>A project that configures only the production output, and its output path.\<close>

definition api_prod_configured :: api where
  "api_prod_configured =
     \<lparr>cwd = ''/proj'', absTmpPath = ''/proj/src/.umi'',
      userConfig = \<lparr>mfsu = Some \<lparr>development = None,
                                  production = Some \<lparr>mode_output = Some ''./out/.mfsu-prod/''\<rparr>,
                                  mfName = None\<rparr>,
                    outputPath = Some ''build''\<rparr>,
      config = \<lparr>mfsu = Some \<lparr>development = None,
                              production = Some \<lparr>mode_output = Some ''./out/.mfsu-prod/''\<rparr>,
                              mfName = None\<rparr>,
                outputPath = Some ''build''\<rparr>\<rparr>"






text \<open>A project that enables the feature and configures no output.\<close>

definition api_default :: api where
  "api_default =
     \<lparr>cwd = ''/proj'', absTmpPath = ''/proj/src/.umi'',
      userConfig = \<lparr>mfsu = Some \<lparr>development = None, production = None, mfName = None\<rparr>,
                    outputPath = None\<rparr>,
      config = \<lparr>mfsu = Some \<lparr>development = None, production = None, mfName = None\<rparr>,
                outputPath = None\<rparr>\<rparr>"

text \<open>
  A disk with a development artifact and a production artifact, and the same disk
  with another production artifact.
\<close>

definition disk_artifacts :: fs where
  "disk_artifacts =
     map_of
       [(''/proj/src/.umi/.cache/.mfsu'', Dir),
        (''/proj/src/.umi/.cache/.mfsu/mf-dep_react.js'', File ''development react''),
        (''/proj/src/.umi/.cache/.mfsu/remoteEntry.js'', File ''development entry''),
        (''/proj/.mfsu-production'', Dir),
        (''/proj/.mfsu-production/mf-dep_react.js'', File ''production react'')]"


definition mime_example :: "string \<Rightarrow> string" where
  "mime_example ext =
     (if ext = ''.js'' then ''application/javascript''
      else if ext = ''.png'' then ''image/png''
      else ''application/octet-stream'')"

definition request_react :: request where
  "request_react = \<lparr>req_path = ''/mf-dep_react.js'', req_url = ''/mf-dep_react.js?v=1''\<rparr>"

definition request_root :: request where
  "request_root = \<lparr>req_path = ''/'', req_url = ''/''\<rparr>"

definition request_entry :: request where
  "request_entry = \<lparr>req_path = ''/remoteEntry.js'', req_url = ''/remoteEntry.js''\<rparr>"

text \<open>
  A regular expression engine for the examples. It gives JavaScript's answers for the
  source \<^verbatim>\<open>^/c++/\<close>, which \<^verbatim>\<open>new RegExp\<close> refuses (nothing to repeat), and for the
  sources that are \<^verbatim>\<open>^\<close> followed by characters none of which is a syntax character
  of the pattern language other than the dot. It has no answer for other sources, and
  says so.
\<close>

definition syntax_character :: "char \<Rightarrow> bool" where
  "syntax_character c = (c \<in> set (CHR 0x5C # ''^$*+?()[]{}|''))"

definition regexp_replace_example :: "string \<Rightarrow> string \<Rightarrow> error + string" where
  "regexp_replace_example source subject =
     (if source = ''^/c++/'' then Inl (SyntaxError source)
      else
        (case source of
           [] \<Rightarrow> Inl (Error ''source outside the examples'')
         | c # body \<Rightarrow>
             if c = CHR ''^'' \<and> \<not> list_ex syntax_character body
             then (case rx_prefix (map (\<lambda>c. if c = CHR ''.'' then AnyChar else Lit c) body)
                          subject of
                     Some rest \<Rightarrow> Inr (CHR ''/'' # rest)
                   | None \<Rightarrow> Inr subject)
             else Inl (Error ''source outside the examples'')))"

text \<open>
  A development artifact that is not text: the first bytes of a PNG image. A request
  for it, and a request whose path climbs out of the development directory.
\<close>

definition disk_image :: fs where
  "disk_image =
     disk_artifacts (''/proj/src/.umi/.cache/.mfsu/logo.png''
       \<mapsto> File [CHR 0x89, CHR ''P'', CHR ''N'', CHR ''G''])"

definition request_image :: request where
  "request_image = \<lparr>req_path = ''/logo.png'', req_url = ''/logo.png''\<rparr>"


text \<open>
  A project that does not enable the feature, and one that configures the same output
  for both modes, with the disk after its production build.
\<close>

definition api_disabled :: api where
  "api_disabled =
     \<lparr>cwd = ''/proj'', absTmpPath = ''/proj/src/.umi'',
      userConfig = \<lparr>mfsu = None, outputPath = None\<rparr>,
      config = \<lparr>mfsu = None, outputPath = None\<rparr>\<rparr>"



subsection \<open>Passes\<close>

definition record_lodash :: dependency where
  "record_lodash = \<lparr>version = ''4.17.0'', dep_file = ''/proj/node_modules/lodash/lodash.js''\<rparr>"

definition record_lodash_bumped :: dependency where
  "record_lodash_bumped = \<lparr>version = ''4.18.0'', dep_file = ''/proj/node_modules/lodash/lodash.js''\<rparr>"

definition record_react :: dependency where
  "record_react = \<lparr>version = ''17.0.0'', dep_file = ''/proj/node_modules/react/index.js''\<rparr>"

definition record_axios :: dependency where
  "record_axios = \<lparr>version = ''0.21.0'', dep_file = ''/proj/node_modules/axios/index.js''\<rparr>"

definition snapshot_two :: snapshot where
  "snapshot_two = [(''lodash'', record_lodash), (''react'', record_react)]"

text \<open>
  A world whose persisted Snapshot holds the two dependencies, with the dev server
  running.
\<close>

definition world_cached :: world where
  "world_cached =
     \<lparr>disk = disk_artifacts, cache = snapshot_two, trace = [], dev_server = True\<rparr>"

text \<open>A bundler run that succeeds and one that reports an error.\<close>

definition outcome_success :: build_outcome where
  "outcome_success = \<lparr>build_err = False, stats_hasErrors = False, emitted = (\<lambda>d. d)\<rparr>"

definition outcome_failure :: build_outcome where
  "outcome_failure = \<lparr>build_err = True, stats_hasErrors = False, emitted = (\<lambda>d. d)\<rparr>"







text \<open>
  The command lines \<^verbatim>\<open>umi mfsu build\<close>, \<^verbatim>\<open>umi mfsu build --force\<close> and
  \<^verbatim>\<open>umi mfsu clean\<close>, as the command sees them.
\<close>

definition args_build :: args where
  "args_build = \<lparr>positional = [''build''], mode_arg = None, force = False\<rparr>"



subsection \<open>Install trees and alias tables\<close>

text \<open>
  A project at \<^verbatim>\<open>/root\<close> with two installed packages and a workspace package of its
  own; the manifests of the project and of the workspace package declare versions too.
\<close>

definition tree_project :: manifests where
  "tree_project =
     map_of
       [([''root'', ''node_modules'', ''@babel'', ''core''], ''7.14.0''),
        ([''root'', ''node_modules'', ''lodash''], ''4.17.21''),
        ([''root'', ''node_modules'', ''pkgs''], ''3.0.0''),
        ([''root'', ''packages'', ''a''], ''2.0.0''),
        ([''root''], ''1.0.0'')]"

text \<open>Alias tables: to a directory, to a file, to a specifier, and three chains of length 2.\<close>

definition alias_directory :: alias_table where
  "alias_directory = [(''pkgs'', ''/root/packages'')]"

definition alias_file :: alias_table where
  "alias_file = [(''foo'', ''/root/node_modules/@babel/core/src/transform-file-browser'')]"

definition alias_specifier :: alias_table where
  "alias_specifier = [(''foo'', ''@babel/core'')]"

definition alias_chain_absolute :: alias_table where
  "alias_chain_absolute = [(''foo'', ''bar''), (''bar'', ''/root/node_modules/lodash'')]"

definition alias_chain_directory :: alias_table where
  "alias_chain_directory = [(''foo'', ''pkgs/a''), (''pkgs'', ''/root/packages'')]"

definition alias_chain_specifier :: alias_table where
  "alias_chain_specifier = [(''foo'', ''bar''), (''bar'', ''lodash'')]"

section \<open>Cache and build-output locations\<close>

text \<open>
  Claim C9. There is one cache and build-output location per mode. An output path that
  the user configures (a non-empty string) is joined with the project's \<^verbatim>\<open>cwd\<close>, in
  both modes. Without one, the development location is
  \<^verbatim>\<open>absTmpPath/.cache/.mfsu\<close>, derived from the project's temporary directory, and
  the production location is the per-mode directory \<^verbatim>\<open>.mfsu-production\<close> of the
  project.
\<close>

theorem getMfsuPath_locations:
  "(truthy (development_output (userConfig a)) \<longrightarrow>
      getMfsuPath a Development = join [cwd a, the (development_output (userConfig a))])
   \<and> (truthy (production_output (userConfig a)) \<longrightarrow>
      getMfsuPath a Production = join [cwd a, the (production_output (userConfig a))])
   \<and> (\<not> truthy (development_output (userConfig a)) \<longrightarrow>
      getMfsuPath a Development = join [absTmpPath a, ''.cache'', ''.mfsu''])
   \<and> (\<not> truthy (production_output (userConfig a)) \<longrightarrow>
      getMfsuPath a Production = join [cwd a, ''./.mfsu-production''])"
  by (simp add: getMfsuPath_def)

theorem getMfsuPath_locations_witness:
  "truthy (development_output (userConfig api_dev_configured))
   \<and> getMfsuPath api_dev_configured Development = ''/proj/.mfsu-dev''
   \<and> \<not> truthy (production_output (userConfig api_dev_configured))
   \<and> getMfsuPath api_dev_configured Production = ''/proj/.mfsu-production''
   \<and> truthy (production_output (userConfig api_prod_configured))
   \<and> getMfsuPath api_prod_configured Production = ''/proj/out/.mfsu-prod/''
   \<and> \<not> truthy (development_output (userConfig api_prod_configured))
   \<and> getMfsuPath api_prod_configured Development = ''/proj/src/.umi/.cache/.mfsu''"
proof -
  have d1: "truthy (development_output (userConfig api_dev_configured))" by code_simp
  have d2: "\<not> truthy (production_output (userConfig api_dev_configured))" by code_simp
  have p1: "truthy (production_output (userConfig api_prod_configured))" by code_simp
  have p2: "\<not> truthy (development_output (userConfig api_prod_configured))" by code_simp
  have j1: "join [cwd api_dev_configured, the (development_output (userConfig api_dev_configured))]
              = ''/proj/.mfsu-dev''" by code_simp
  have j2: "join [cwd api_dev_configured, ''./.mfsu-production''] = ''/proj/.mfsu-production''"
    by code_simp
  have j3: "join [cwd api_prod_configured, the (production_output (userConfig api_prod_configured))]
              = ''/proj/out/.mfsu-prod/''" by code_simp
  have j4: "join [absTmpPath api_prod_configured, ''.cache'', ''.mfsu'']
              = ''/proj/src/.umi/.cache/.mfsu''" by code_simp
  from getMfsuPath_locations [of api_dev_configured] getMfsuPath_locations [of api_prod_configured]
       d1 d2 p1 p2 j1 j2 j3 j4
  show ?thesis by simp
qed

section \<open>Configuration errors\<close>




section \<open>Properties of the request interceptor\<close>

lemma utf8_decode_one:
  "byte_in 0x00 0x7F b \<Longrightarrow> utf8_decode (b # bs) = b # utf8_decode bs"
  by simp

lemma utf8_decode_two:
  "\<not> byte_in 0x00 0x7F b \<Longrightarrow> byte_in 0xC2 0xDF b \<Longrightarrow> byte_in 0x80 0xBF c1 \<Longrightarrow>
   utf8_decode (b # c1 # r) = b # c1 # utf8_decode r"
  by simp

lemma utf8_decode_three:
  "\<not> byte_in 0x00 0x7F b \<Longrightarrow> \<not> byte_in 0xC2 0xDF b \<Longrightarrow> byte_in 0xE0 0xEF b \<Longrightarrow>
   byte_in (first_lower b) (first_upper b) c1 \<Longrightarrow> byte_in 0x80 0xBF c2 \<Longrightarrow>
   utf8_decode (b # c1 # c2 # r) = b # c1 # c2 # utf8_decode r"
  by simp

lemma utf8_decode_four:
  "\<not> byte_in 0x00 0x7F b \<Longrightarrow> \<not> byte_in 0xC2 0xDF b \<Longrightarrow> \<not> byte_in 0xE0 0xEF b \<Longrightarrow>
   byte_in 0xF0 0xF4 b \<Longrightarrow>
   byte_in (first_lower b) (first_upper b) c1 \<Longrightarrow> byte_in 0x80 0xBF c2 \<Longrightarrow>
   byte_in 0x80 0xBF c3 \<Longrightarrow>
   utf8_decode (b # c1 # c2 # c3 # r) = b # c1 # c2 # c3 # utf8_decode r"
  by simp

lemma utf8_decode_wellformed:
  "utf8_wellformed bs \<Longrightarrow> utf8_decode bs = bs"
proof (induction "length bs" arbitrary: bs rule: less_induct)
  case less
  show ?case
  proof (cases bs)
    case Nil
    then show ?thesis by simp
  next
    case (Cons b r)
    note wf = less.prems [unfolded Cons]
    show ?thesis
    proof (cases "byte_in 0x00 0x7F b")
      case True
      with wf have "utf8_wellformed r" by simp
      with less.hyps [of r] Cons have "utf8_decode r = r" by simp
      with True Cons show ?thesis by (simp add: utf8_decode_one del: utf8_decode.simps)
    next
      case n1: False
      show ?thesis
      proof (cases "byte_in 0xC2 0xDF b")
        case True
        with n1 wf obtain c1 r1 where r: "r = c1 # r1" and c1: "byte_in 0x80 0xBF c1"
          and w: "utf8_wellformed r1"
          by (cases r) simp_all
        from less.hyps [of r1] w Cons r have "utf8_decode r1 = r1" by simp
        with n1 True c1 Cons r show ?thesis by (simp add: utf8_decode_two del: utf8_decode.simps)
      next
        case n2: False
        show ?thesis
        proof (cases "byte_in 0xE0 0xEF b")
          case True
          with n1 n2 wf obtain c1 c2 r2 where r: "r = c1 # c2 # r2"
            and c1: "byte_in (first_lower b) (first_upper b) c1"
            and c2: "byte_in 0x80 0xBF c2" and w: "utf8_wellformed r2"
            by (cases r; cases "tl r") simp_all
          from less.hyps [of r2] w Cons r have "utf8_decode r2 = r2" by simp
          with n1 n2 True c1 c2 Cons r show ?thesis by (simp add: utf8_decode_three del: utf8_decode.simps)
        next
          case n3: False
          show ?thesis
          proof (cases "byte_in 0xF0 0xF4 b")
            case True
            with n1 n2 n3 wf obtain c1 c2 c3 r3 where r: "r = c1 # c2 # c3 # r3"
              and c1: "byte_in (first_lower b) (first_upper b) c1"
              and c2: "byte_in 0x80 0xBF c2" and c3: "byte_in 0x80 0xBF c3"
              and w: "utf8_wellformed r3"
              by (cases r; cases "tl r"; cases "tl (tl r)") simp_all
            from less.hyps [of r3] w Cons r have "utf8_decode r3 = r3" by simp
            with n1 n2 n3 True c1 c2 c3 Cons r show ?thesis by (simp add: utf8_decode_four del: utf8_decode.simps)
          next
            case False
            with n1 n2 n3 wf show ?thesis by simp
          qed
        qed
      qed
    qed
  qed
qed

lemma middleware_unfold:
  "middleware engine mime a st d req =
     (case engine (CHR ''^'' # publicPath st) (req_path req) of
        Inl e \<Rightarrow> Inl e
      | Inr replaced \<Rightarrow>
          if mfsu (userConfig a) = None \<or> req_path req = ''/'' then Inr Next
          else
            (case d (join [getMfsuPath a Development, drop 1 replaced]) of
               None \<Rightarrow> Inr Next
             | Some Dir \<Rightarrow> Inl (EISDIR (join [getMfsuPath a Development, drop 1 replaced]))
             | Some (File bytes) \<Rightarrow>
                 Inr (Send
                   ((''content-type'', mime (parse_ext (req_path req)))
                    # (if rx_test re_remoteEntry (req_url req) then []
                       else [(''cache-control'', ''max-age=31536000,immutable'')]))
                   (utf8_decode bytes))))"
  by (auto simp: middleware_def Let_def existsSync_def readFileSync_def
           split: sum.splits option.splits node.splits)




text \<open>
  Claim C3, as stated: control passes through if the feature is disabled or the
  requested path does not exist under the artifact directory; if the file exists, its
  bytes are served. Three inputs show that the code does otherwise.
  \<^item> For the request path \<^verbatim>\<open>/\<close> the requested file is the artifact directory itself,
    which exists, and the middleware passes the request on.
  \<^item> A file that is not well-formed UTF-8, here the start of a PNG image, exists and is
    served, but not with its bytes: it is read as UTF-8, and \<^verbatim>\<open>U+FFFD\<close> goes out in
    place of the byte \<^verbatim>\<open>89\<close>.
  \<^item> With a public path that is not a regular expression the middleware throws, also
    when the feature is disabled: the pattern is compiled before anything else.
\<close>

theorem interceptor_serving_counterexample:
  "mfsu (userConfig api_default) \<noteq> None
   \<and> existsSync disk_artifacts (join [getMfsuPath api_default Development, drop 1 ''/''])
   \<and> regexp_replace_example (CHR ''^'' # publicPath initial_plugin) (req_path request_root)
       = Inr ''/''
   \<and> middleware regexp_replace_example mime_example api_default initial_plugin disk_artifacts
        request_root = Inr Next
   \<and> disk_image ''/proj/src/.umi/.cache/.mfsu/logo.png''
       = Some (File [CHR 0x89, CHR ''P'', CHR ''N'', CHR ''G''])
   \<and> middleware regexp_replace_example mime_example api_default initial_plugin disk_image
        request_image
      = Inr (Send [(''content-type'', ''image/png''),
                   (''cache-control'', ''max-age=31536000,immutable'')]
               [CHR 0xEF, CHR 0xBF, CHR 0xBD, CHR ''P'', CHR ''N'', CHR ''G''])
   \<and> [CHR 0xEF, CHR 0xBF, CHR 0xBD, CHR ''P'', CHR ''N'', CHR ''G'']
       \<noteq> [CHR 0x89, CHR ''P'', CHR ''N'', CHR ''G'']
   \<and> mfsu (userConfig api_disabled) = None
   \<and> middleware regexp_replace_example mime_example api_disabled
        (initial_plugin\<lparr>publicPath := ''/c++/''\<rparr>) disk_artifacts request_react
      = Inl (SyntaxError ''^/c++/'')"
  by code_simp

text \<open>
  Claim C3, amended. For every inbound request, if the public path does not compile as
  a regular expression, the middleware throws. Otherwise control passes through
  unmodified exactly when the feature is disabled, the request path is \<^verbatim>\<open>/\<close>, or
  nothing exists at the requested file below the development artifact directory. A
  file that exists there is read as UTF-8 and sent, with the content type that the
  \<^verbatim>\<open>mime\<close> table gives for the extension of the request path: what is sent are the
  bytes of the file when they are well-formed UTF-8. A served response carries the header
  \<^verbatim>\<open>cache-control: max-age=31536000,immutable\<close> exactly when the URL of the request
  does not match \<^verbatim>\<open>/remoteEntry.js/\<close>.
\<close>

theorem interceptor_behaviour:
  "(engine (CHR ''^'' # publicPath st) (req_path req) = Inl e \<longrightarrow>
      middleware engine mime a st d req = Inl e)
   \<and> (engine (CHR ''^'' # publicPath st) (req_path req) = Inr replaced \<longrightarrow>
      (middleware engine mime a st d req = Inr Next)
        = (mfsu (userConfig a) = None \<or> req_path req = ''/''
           \<or> \<not> existsSync d (join [getMfsuPath a Development, drop 1 replaced])))
   \<and> (engine (CHR ''^'' # publicPath st) (req_path req) = Inr replaced
       \<and> mfsu (userConfig a) \<noteq> None \<and> req_path req \<noteq> ''/''
       \<and> d (join [getMfsuPath a Development, drop 1 replaced]) = Some (File bytes) \<longrightarrow>
       middleware engine mime a st d req
         = Inr (Send
             ((''content-type'', mime (parse_ext (req_path req)))
              # (if rx_test re_remoteEntry (req_url req) then []
                 else [(''cache-control'', ''max-age=31536000,immutable'')]))
             (utf8_decode bytes)))
   \<and> (utf8_wellformed bytes \<longrightarrow> utf8_decode bytes = bytes)
   \<and> (middleware engine mime a st d req = Inr (Send hs body) \<longrightarrow>
        map_of hs ''cache-control''
          = (if rx_test re_remoteEntry (req_url req) then None
             else Some ''max-age=31536000,immutable''))"
proof (intro conjI impI)
  assume "engine (CHR ''^'' # publicPath st) (req_path req) = Inl e"
  then show "middleware engine mime a st d req = Inl e"
    by (simp add: middleware_unfold)
next
  assume "engine (CHR ''^'' # publicPath st) (req_path req) = Inr replaced"
  then show "(middleware engine mime a st d req = Inr Next)
        = (mfsu (userConfig a) = None \<or> req_path req = ''/''
           \<or> \<not> existsSync d (join [getMfsuPath a Development, drop 1 replaced]))"
    by (auto simp: middleware_unfold existsSync_def split: option.splits node.splits)
next
  assume "engine (CHR ''^'' # publicPath st) (req_path req) = Inr replaced
       \<and> mfsu (userConfig a) \<noteq> None \<and> req_path req \<noteq> ''/''
       \<and> d (join [getMfsuPath a Development, drop 1 replaced]) = Some (File bytes)"
  then show "middleware engine mime a st d req
         = Inr (Send
             ((''content-type'', mime (parse_ext (req_path req)))
              # (if rx_test re_remoteEntry (req_url req) then []
                 else [(''cache-control'', ''max-age=31536000,immutable'')]))
             (utf8_decode bytes))"
    by (simp add: middleware_unfold)
next
  assume "utf8_wellformed bytes"
  then show "utf8_decode bytes = bytes"
    by (rule utf8_decode_wellformed)
next
  assume "middleware engine mime a st d req = Inr (Send hs body)"
  then show "map_of hs ''cache-control''
          = (if rx_test re_remoteEntry (req_url req) then None
             else Some ''max-age=31536000,immutable'')"
    by (auto simp: middleware_unfold split: if_splits sum.splits option.splits node.splits)
qed

theorem interceptor_behaviour_witness:
  "regexp_replace_example (CHR ''^'' # ''/c++/'') (req_path request_react)
     = Inl (SyntaxError ''^/c++/'')
   \<and> middleware regexp_replace_example mime_example api_default
        (initial_plugin\<lparr>publicPath := ''/c++/''\<rparr>) disk_artifacts request_react
      = Inl (SyntaxError ''^/c++/'')
   \<and> regexp_replace_example (CHR ''^'' # publicPath initial_plugin) (req_path request_entry)
       = Inr ''/remoteEntry.js''
   \<and> (mfsu (userConfig api_default) \<noteq> None \<and> req_path request_entry \<noteq> ''/''
      \<and> disk_artifacts (join [getMfsuPath api_default Development, drop 1 ''/remoteEntry.js''])
          = Some (File ''development entry''))
   \<and> utf8_wellformed ''development entry''
   \<and> middleware regexp_replace_example mime_example api_default initial_plugin disk_artifacts
        request_entry
      = Inr (Send [(''content-type'', ''application/javascript'')] ''development entry'')
   \<and> middleware regexp_replace_example mime_example api_default initial_plugin disk_artifacts
        request_entry \<noteq> Inr Next
   \<and> map_of [(''content-type'', ''application/javascript'')] ''cache-control'' = None
   \<and> rx_test re_remoteEntry (req_url request_entry)"
proof -
  have g0: "regexp_replace_example (CHR ''^'' # publicPath (initial_plugin\<lparr>publicPath := ''/c++/''\<rparr>))
        (req_path request_react) = Inl (SyntaxError ''^/c++/'')"
    by code_simp
  have g0': "regexp_replace_example (CHR ''^'' # ''/c++/'') (req_path request_react)
     = Inl (SyntaxError ''^/c++/'')"
    by code_simp
  have g: "regexp_replace_example (CHR ''^'' # publicPath initial_plugin) (req_path request_entry)
       = Inr ''/remoteEntry.js''"
    by code_simp
  have h1: "mfsu (userConfig api_default) \<noteq> None" by code_simp
  have h2: "req_path request_entry \<noteq> ''/''" by code_simp
  have h3: "disk_artifacts (join [getMfsuPath api_default Development, drop 1 ''/remoteEntry.js''])
          = Some (File ''development entry'')"
    by code_simp
  from h1 h2 h3
  have h: "mfsu (userConfig api_default) \<noteq> None \<and> req_path request_entry \<noteq> ''/''
      \<and> disk_artifacts (join [getMfsuPath api_default Development, drop 1 ''/remoteEntry.js''])
          = Some (File ''development entry'')"
    by (intro conjI)
  have w: "utf8_wellformed ''development entry''" by code_simp
  have m1: "rx_test re_remoteEntry (req_url request_entry)" by code_simp
  have ct: "mime_example (parse_ext (req_path request_entry)) = ''application/javascript''"
    by code_simp
  note T0 = interceptor_behaviour
         [where engine = regexp_replace_example and mime = mime_example and a = api_default
            and st = "initial_plugin\<lparr>publicPath := ''/c++/''\<rparr>"
            and d = disk_artifacts and req = request_react
            and e = "SyntaxError ''^/c++/''"]
  note T = interceptor_behaviour
         [where engine = regexp_replace_example and mime = mime_example and a = api_default
            and st = initial_plugin and d = disk_artifacts and req = request_entry
            and replaced = "''/remoteEntry.js''" and bytes = "''development entry''"
            and hs = "[(''content-type'', ''application/javascript'')]"
            and body = "''development entry''"]
  from T0 [THEN conjunct1] g0
  have r0: "middleware regexp_replace_example mime_example api_default
        (initial_plugin\<lparr>publicPath := ''/c++/''\<rparr>) disk_artifacts request_react
      = Inl (SyntaxError ''^/c++/'')"
    by (rule mp)
  from T [THEN conjunct2, THEN conjunct2, THEN conjunct2, THEN conjunct1] w
  have u: "utf8_decode ''development entry'' = ''development entry''"
    by (rule mp)
  from g h have gh: "regexp_replace_example (CHR ''^'' # publicPath initial_plugin)
        (req_path request_entry) = Inr ''/remoteEntry.js''
      \<and> mfsu (userConfig api_default) \<noteq> None \<and> req_path request_entry \<noteq> ''/''
      \<and> disk_artifacts (join [getMfsuPath api_default Development, drop 1 ''/remoteEntry.js''])
          = Some (File ''development entry'')"
    by (rule conjI)
  from T [THEN conjunct2, THEN conjunct2, THEN conjunct1] gh
  have s0: "middleware regexp_replace_example mime_example api_default initial_plugin
        disk_artifacts request_entry
      = Inr (Send
             ((''content-type'', mime_example (parse_ext (req_path request_entry)))
              # (if rx_test re_remoteEntry (req_url request_entry) then []
                 else [(''cache-control'', ''max-age=31536000,immutable'')]))
             (utf8_decode ''development entry''))"
    by (rule mp)
  have s: "middleware regexp_replace_example mime_example api_default initial_plugin
        disk_artifacts request_entry
      = Inr (Send [(''content-type'', ''application/javascript'')] ''development entry'')"
    unfolding s0 u ct using m1 by simp
  from T [THEN conjunct2, THEN conjunct2, THEN conjunct2, THEN conjunct2] s
  have c0: "map_of [(''content-type'', ''application/javascript'')] ''cache-control''
      = (if rx_test re_remoteEntry (req_url request_entry) then None
         else Some ''max-age=31536000,immutable'')"
    by (rule mp)
  from c0 m1 have c: "map_of [(''content-type'', ''application/javascript'')] ''cache-control''
      = None"
    by simp
  from s have n: "middleware regexp_replace_example mime_example api_default initial_plugin
        disk_artifacts request_entry \<noteq> Inr Next"
    by simp
  from g0' r0 g h1 h2 h3 w s n c m1 show ?thesis by (intro conjI)
qed

section \<open>Rebuild decision and cache write\<close>

lemma onBuildComplete_thrown:
  "fst (onBuildComplete st err he w) =
     (if \<not> err \<and> \<not> he \<and> mode st = Development \<and> \<not> dev_server w
      then Some (TypeError ''sockWrite'') else None)"
  by (simp add: onBuildComplete_def writeCache_def Let_def)

lemma onBuildComplete_trace:
  "trace (snd (onBuildComplete st err he w)) =
     trace w @ (if err \<or> he then []
                else if mode st = Development \<and> dev_server w then [WriteCache, SockWrite]
                else [WriteCache])"
  by (simp add: onBuildComplete_def writeCache_def Let_def)

lemma onBuildComplete_cache:
  "cache (snd (onBuildComplete st err he w)) = (if err \<or> he then cache w else depInfo_deps st)"
  by (simp add: onBuildComplete_def writeCache_def Let_def)


lemma buildDeps_resolved:
  "buildDeps a f (Inr deps) outcome st w =
     (let st1 = st\<lparr>depInfo_deps := deps\<rparr>;
          dst = join [cwd a, if truthy (outputPath (userConfig a))
                             then the (outputPath (userConfig a)) else ''./dist'']
      in if f \<or> shouldBuild (cache w) deps
         then
           let r = onBuildComplete st1 (build_err outcome) (stats_hasErrors outcome)
                     (w\<lparr>disk := emitted outcome (disk w),
                        trace := trace w @ [Build deps (webpackAlias st)]\<rparr>)
           in (case fst r of
                 Some e \<Rightarrow> (Some e, st1, snd r)
               | None \<Rightarrow>
                   if build_err outcome \<or> stats_hasErrors outcome
                   then (Some BuildFailure, st1, snd r)
                   else if mode st = Production
                   then (None, st1, copy (depBuilder_tmpDir st) dst (snd r))
                   else (None, st1, snd r))
         else if mode st = Production
         then (None, st1, copy (depBuilder_tmpDir st) dst w)
         else (None, st1, w))"
  by (auto simp: buildDeps_def loadTmpDeps_def depBuilder_build_def Let_def
           split: option.splits prod.splits)


lemma buildDeps_events:
  "new_events w (snd (snd (buildDeps a f (Inr deps) outcome st w))) =
     (if f \<or> shouldBuild (cache w) deps
      then Build deps (webpackAlias st)
           # (if build_err outcome \<or> stats_hasErrors outcome then []
              else WriteCache
                   # (if mode st = Development then (if dev_server w then [SockWrite] else [])
                      else [Copy (depBuilder_tmpDir st)
                              (join [cwd a, if truthy (outputPath (userConfig a))
                                            then the (outputPath (userConfig a))
                                            else ''./dist''])]))
      else if mode st = Production
      then [Copy (depBuilder_tmpDir st)
              (join [cwd a, if truthy (outputPath (userConfig a))
                            then the (outputPath (userConfig a)) else ''./dist''])]
      else [])"
  by (cases "mode st")
     (simp_all add: buildDeps_resolved Let_def onBuildComplete_thrown onBuildComplete_trace
        new_events_def copy_def)

lemma buildDeps_cache:
  "cache (snd (snd (buildDeps a f (Inr deps) outcome st w))) =
     (if (f \<or> shouldBuild (cache w) deps) \<and> \<not> build_err outcome \<and> \<not> stats_hasErrors outcome
      then deps else cache w)"
  by (simp add: buildDeps_resolved Let_def onBuildComplete_thrown onBuildComplete_cache copy_def)


lemma snapshot_keys_map_of: "(k \<in> snapshot_keys A) = (map_of A k \<noteq> None)"
  by (simp add: snapshot_keys_def map_of_eq_None_iff)

lemma shouldBuild_iff:
  "shouldBuild A B
     = (\<exists>k. map_option version (map_of B k) \<noteq> map_option version (map_of A k))"
proof
  assume "shouldBuild A B"
  then consider "snapshot_keys B \<noteq> snapshot_keys A"
    | k where "k \<in> snapshot_keys B \<inter> snapshot_keys A"
        "map_option version (map_of B k) \<noteq> map_option version (map_of A k)"
    unfolding shouldBuild_def by blast
  then show "\<exists>k. map_option version (map_of B k) \<noteq> map_option version (map_of A k)"
  proof cases
    case 1
    then obtain k where "(k \<in> snapshot_keys B) \<noteq> (k \<in> snapshot_keys A)" by blast
    then have "(map_of B k = None) \<noteq> (map_of A k = None)"
      unfolding snapshot_keys_map_of by blast
    then have "map_option version (map_of B k) \<noteq> map_option version (map_of A k)"
      by (cases "map_of B k"; cases "map_of A k") simp_all
    then show ?thesis ..
  next
    case 2
    then show ?thesis by blast
  qed
next
  assume "\<exists>k. map_option version (map_of B k) \<noteq> map_option version (map_of A k)"
  then obtain k where k: "map_option version (map_of B k) \<noteq> map_option version (map_of A k)" ..
  show "shouldBuild A B"
  proof (cases "snapshot_keys B = snapshot_keys A")
    case False
    then show ?thesis by (simp add: shouldBuild_def)
  next
    case True
    from k have "map_of B k \<noteq> None \<or> map_of A k \<noteq> None" by auto
    with True have "k \<in> snapshot_keys B \<inter> snapshot_keys A"
      by (auto simp: snapshot_keys_map_of)
    with k show ?thesis unfolding shouldBuild_def by blast
  qed
qed

lemma shouldBuild_same: "\<not> shouldBuild A A"
  by (simp add: shouldBuild_def)

lemma shouldBuild_key_sets:
  "(x \<in> snapshot_keys B) \<noteq> (x \<in> snapshot_keys A) \<Longrightarrow> shouldBuild A B"
  unfolding shouldBuild_def by blast

lemma shouldBuild_version:
  "map_of A k = Some old \<Longrightarrow> map_of B k = Some new \<Longrightarrow> version new \<noteq> version old
     \<Longrightarrow> shouldBuild A B"
  unfolding shouldBuild_iff by (rule exI [where x = k]) simp

lemma shouldBuild_added:
  "x \<notin> snapshot_keys A \<Longrightarrow> shouldBuild A ((x, r) # A)"
  by (auto simp: shouldBuild_def snapshot_keys_def)

lemma shouldBuild_removed:
  "x \<notin> snapshot_keys A \<Longrightarrow> shouldBuild ((x, r) # A) A"
  by (auto simp: shouldBuild_def snapshot_keys_def)

lemma shouldBuild_bumped:
  assumes "map_of A k = Some r" and "version r' \<noteq> version r"
  shows "shouldBuild A (AList.update k r' A)"
  using assms(1) _ assms(2) by (rule shouldBuild_version) (simp add: AList.update_conv')

text \<open>
  Claim C1. A call of \<^verbatim>\<open>buildDeps\<close> without the force flag invokes the external build
  if and only if \<^verbatim>\<open>shouldBuild\<close> is true; the hooks \<^verbatim>\<open>onDevCompileDone\<close> and
  \<^verbatim>\<open>onBuildComplete\<close> (after a build without error) and the command
  \<^verbatim>\<open>mfsu build\<close> without \<^verbatim>\<open>--force\<close> make such calls.
  \<^verbatim>\<open>shouldBuild\<close> is false when the new resolution has the key set and the versions
  of the persisted Snapshot, so that the build is not invoked then. It is true when a
  specifier of the new resolution is not in the persisted Snapshot (added), when a
  specifier of the persisted Snapshot is not in the new resolution (removed), and when
  a specifier of both has different versions in them; in each of these cases the build
  is invoked. Altogether \<^verbatim>\<open>shouldBuild\<close> is true exactly when some specifier has not
  the same version, or absence, in both.
\<close>

theorem build_iff_shouldBuild:
  "list_ex is_build (new_events w (snd (snd (buildDeps a False (Inr deps) outcome st w))))
     = shouldBuild (cache w) deps
   \<and> api_onDevCompileDone a resolved outcome st w = buildDeps a False resolved outcome st w
   \<and> (\<not> err \<longrightarrow>
       api_onBuildComplete a err resolved outcome st w = buildDeps a False resolved outcome st w)
   \<and> (at_index (positional ar) 0 = Some ''build'' \<and> \<not> force ar \<longrightarrow>
       mfsu_command a ar resolved outcome st w = buildDeps a False resolved outcome st w)
   \<and> \<not> shouldBuild A A
   \<and> (snapshot_keys B = snapshot_keys A
       \<and> (\<forall>k. map_option version (map_of B k) = map_option version (map_of A k))
       \<longrightarrow> \<not> shouldBuild A B)
   \<and> (deps = cache w \<longrightarrow>
       \<not> list_ex is_build (new_events w (snd (snd (buildDeps a False (Inr deps) outcome st w)))))
   \<and> (x \<notin> snapshot_keys A \<longrightarrow> shouldBuild A ((x, r) # A) \<and> shouldBuild ((x, r) # A) A)
   \<and> (map_of A k = Some old \<and> version new \<noteq> version old \<longrightarrow>
       shouldBuild A (AList.update k new A))
   \<and> (y \<in> snapshot_keys B \<and> y \<notin> snapshot_keys A \<longrightarrow> shouldBuild A B)
   \<and> (y \<in> snapshot_keys A \<and> y \<notin> snapshot_keys B \<longrightarrow> shouldBuild A B)
   \<and> (map_of A k = Some old \<and> map_of B k = Some new \<and> version new \<noteq> version old \<longrightarrow>
       shouldBuild A B)
   \<and> shouldBuild A B
       = (\<exists>k. map_option version (map_of B k) \<noteq> map_option version (map_of A k))
   \<and> ((z \<in> snapshot_keys deps) \<noteq> (z \<in> snapshot_keys (cache w))
       \<or> (\<exists>k u v. map_of (cache w) k = Some u \<and> map_of deps k = Some v
                   \<and> version v \<noteq> version u) \<longrightarrow>
       list_ex is_build (new_events w (snd (snd (buildDeps a False (Inr deps) outcome st w)))))"
proof -
  have b: "list_ex is_build (new_events w (snd (snd (buildDeps a False (Inr deps) outcome st w))))
     = shouldBuild (cache w) deps"
    by (simp add: buildDeps_events)
  have s: "snapshot_keys B = snapshot_keys A
       \<and> (\<forall>k. map_option version (map_of B k) = map_option version (map_of A k))
       \<longrightarrow> \<not> shouldBuild A B"
    by (simp add: shouldBuild_def)
  have h: "api_onDevCompileDone a resolved outcome st w = buildDeps a False resolved outcome st w
      \<and> (\<not> err \<longrightarrow>
          api_onBuildComplete a err resolved outcome st w
            = buildDeps a False resolved outcome st w)
      \<and> (at_index (positional ar) 0 = Some ''build'' \<and> \<not> force ar \<longrightarrow>
          mfsu_command a ar resolved outcome st w = buildDeps a False resolved outcome st w)"
    by (simp add: api_onDevCompileDone_def api_onBuildComplete_def mfsu_command_def)
  have g1: "y \<in> snapshot_keys B \<and> y \<notin> snapshot_keys A \<longrightarrow> shouldBuild A B"
    by (blast intro: shouldBuild_key_sets)
  have g2: "y \<in> snapshot_keys A \<and> y \<notin> snapshot_keys B \<longrightarrow> shouldBuild A B"
    by (blast intro: shouldBuild_key_sets)
  have g3: "map_of A k = Some old \<and> map_of B k = Some new \<and> version new \<noteq> version old \<longrightarrow>
       shouldBuild A B"
    by (blast intro: shouldBuild_version)
  have g4: "shouldBuild A B
       = (\<exists>k. map_option version (map_of B k) \<noteq> map_option version (map_of A k))"
    by (rule shouldBuild_iff)
  have g5: "(z \<in> snapshot_keys deps) \<noteq> (z \<in> snapshot_keys (cache w))
       \<or> (\<exists>k u v. map_of (cache w) k = Some u \<and> map_of deps k = Some v
                   \<and> version v \<noteq> version u) \<longrightarrow>
       list_ex is_build (new_events w (snd (snd (buildDeps a False (Inr deps) outcome st w))))"
    unfolding b by (blast intro: shouldBuild_key_sets shouldBuild_version)
  have a1: "x \<notin> snapshot_keys A \<longrightarrow> shouldBuild A ((x, r) # A) \<and> shouldBuild ((x, r) # A) A"
    by (simp add: shouldBuild_added shouldBuild_removed)
  have a2: "map_of A k = Some old \<and> version new \<noteq> version old \<longrightarrow>
       shouldBuild A (AList.update k new A)"
    by (blast intro: shouldBuild_bumped)
  have a3: "deps = cache w \<longrightarrow>
       \<not> list_ex is_build (new_events w (snd (snd (buildDeps a False (Inr deps) outcome st w))))"
    unfolding b by (simp add: shouldBuild_same)
  from b h shouldBuild_same [of A] s a3 a1 a2 g1 g2 g3 g4 g5
  show ?thesis by (intro conjI) (elim conjE, assumption)+
qed

theorem build_iff_shouldBuild_witness:
  "snapshot_keys (rev snapshot_two) = snapshot_keys snapshot_two
   \<and> (\<forall>k. map_option version (map_of (rev snapshot_two) k)
             = map_option version (map_of snapshot_two k))
   \<and> \<not> shouldBuild snapshot_two (rev snapshot_two)
   \<and> api_onBuildComplete api_default False (Inr snapshot_two) outcome_success initial_plugin
        world_cached
      = buildDeps api_default False (Inr snapshot_two) outcome_success initial_plugin world_cached
   \<and> at_index (positional args_build) 0 = Some ''build''
   \<and> \<not> force args_build
   \<and> mfsu_command api_default args_build (Inr snapshot_two) outcome_success initial_plugin
        world_cached
      = buildDeps api_default False (Inr snapshot_two) outcome_success initial_plugin world_cached
   \<and> snapshot_two = cache world_cached
   \<and> \<not> list_ex is_build (new_events world_cached
          (snd (snd (buildDeps api_default False (Inr snapshot_two) outcome_success
                       initial_plugin world_cached))))
   \<and> ''axios'' \<notin> snapshot_keys snapshot_two
   \<and> shouldBuild snapshot_two ((''axios'', record_axios) # snapshot_two)
   \<and> shouldBuild ((''axios'', record_axios) # snapshot_two) snapshot_two
   \<and> list_ex is_build (new_events world_cached
          (snd (snd (buildDeps api_default False (Inr ((''axios'', record_axios) # snapshot_two))
                       outcome_success initial_plugin world_cached))))
   \<and> map_of snapshot_two ''lodash'' = Some record_lodash
   \<and> version record_lodash_bumped \<noteq> version record_lodash
   \<and> shouldBuild snapshot_two (AList.update ''lodash'' record_lodash_bumped snapshot_two)
   \<and> ''axios'' \<in> snapshot_keys [(''axios'', record_axios), (''react'', record_react)]
   \<and> ''lodash'' \<in> snapshot_keys snapshot_two
   \<and> ''lodash'' \<notin> snapshot_keys [(''axios'', record_axios), (''react'', record_react)]
   \<and> length [(''axios'', record_axios), (''react'', record_react)] = length snapshot_two
   \<and> shouldBuild snapshot_two [(''axios'', record_axios), (''react'', record_react)]
   \<and> shouldBuild [(''axios'', record_axios), (''react'', record_react)] snapshot_two
   \<and> map_of [(''react'', record_react), (''lodash'', record_lodash_bumped)] ''lodash''
       = Some record_lodash_bumped
   \<and> shouldBuild snapshot_two [(''react'', record_react), (''lodash'', record_lodash_bumped)]
   \<and> list_ex is_build (new_events world_cached
          (snd (snd (buildDeps api_default False
                       (Inr [(''axios'', record_axios), (''react'', record_react)])
                       outcome_success initial_plugin world_cached))))"
proof -
  have h1a: "snapshot_keys (rev snapshot_two) = snapshot_keys snapshot_two"
    by (auto simp: snapshot_keys_def snapshot_two_def)
  have h1b: "\<forall>k. map_option version (map_of (rev snapshot_two) k)
               = map_option version (map_of snapshot_two k)"
    by (auto simp: snapshot_two_def)
  have h2: "snapshot_two = cache world_cached"
    by (simp add: world_cached_def)
  have h3: "''axios'' \<notin> snapshot_keys snapshot_two"
    by (simp add: snapshot_keys_def snapshot_two_def)
  have h4a: "map_of snapshot_two ''lodash'' = Some record_lodash"
    by (simp add: snapshot_two_def)
  have h4b: "version record_lodash_bumped \<noteq> version record_lodash"
    by (simp add: record_lodash_bumped_def record_lodash_def)
  have h5a: "at_index (positional args_build) 0 = Some ''build''" by code_simp
  have h5b: "\<not> force args_build" by code_simp
  have h6: "''axios'' \<in> snapshot_keys [(''axios'', record_axios), (''react'', record_react)]"
    by (simp add: snapshot_keys_def)
  have h7: "''lodash'' \<in> snapshot_keys snapshot_two"
    by (simp add: snapshot_keys_def snapshot_two_def)
  have h8: "''lodash'' \<notin> snapshot_keys [(''axios'', record_axios), (''react'', record_react)]"
    by (simp add: snapshot_keys_def)
  have h9: "length [(''axios'', record_axios), (''react'', record_react)] = length snapshot_two"
    by (simp add: snapshot_two_def)
  have h10: "map_of [(''react'', record_react), (''lodash'', record_lodash_bumped)] ''lodash''
       = Some record_lodash_bumped"
    by simp
  note T1 = build_iff_shouldBuild
      [where A = snapshot_two and B = "rev snapshot_two" and w = world_cached
         and deps = snapshot_two and a = api_default and outcome = outcome_success
         and st = initial_plugin and x = "''axios''" and r = record_axios
         and k = "''lodash''" and old = record_lodash and new = record_lodash_bumped
         and err = False and resolved = "Inr snapshot_two" and ar = args_build]
  note T2 = build_iff_shouldBuild
      [where A = snapshot_two and w = world_cached
         and deps = "(''axios'', record_axios) # snapshot_two" and a = api_default
         and outcome = outcome_success and st = initial_plugin and x = "''axios''"
         and r = record_axios]
  note T3 = build_iff_shouldBuild
      [where A = snapshot_two and B = "[(''axios'', record_axios), (''react'', record_react)]"
         and y = "''axios''" and z = "''axios''" and w = world_cached
         and deps = "[(''axios'', record_axios), (''react'', record_react)]"
         and a = api_default and outcome = outcome_success and st = initial_plugin]
  note T4 = build_iff_shouldBuild
      [where B = snapshot_two and A = "[(''axios'', record_axios), (''react'', record_react)]"
         and y = "''axios''"]
  note T5 = build_iff_shouldBuild
      [where A = snapshot_two
         and B = "[(''react'', record_react), (''lodash'', record_lodash_bumped)]"
         and k = "''lodash''" and old = record_lodash and new = record_lodash_bumped]
  from h1a h1b
  have h1: "snapshot_keys (rev snapshot_two) = snapshot_keys snapshot_two
       \<and> (\<forall>k. map_option version (map_of (rev snapshot_two) k)
                 = map_option version (map_of snapshot_two k))"
    by (rule conjI)
  from T1
      [THEN conjunct2, THEN conjunct2, THEN conjunct2, THEN conjunct2,
       THEN conjunct2, THEN conjunct1]
      h1 have r1: "\<not> shouldBuild snapshot_two (rev snapshot_two)"
    by (rule mp)
  from T1
      [THEN conjunct2, THEN conjunct2, THEN conjunct2, THEN conjunct2,
       THEN conjunct2, THEN conjunct2, THEN conjunct1]
      h2 have r2: "\<not> list_ex is_build (new_events world_cached
          (snd (snd (buildDeps api_default False (Inr snapshot_two) outcome_success
                       initial_plugin world_cached))))"
    by (rule mp)
  from T1
      [THEN conjunct2, THEN conjunct2, THEN conjunct2, THEN conjunct2,
       THEN conjunct2, THEN conjunct2, THEN conjunct2, THEN conjunct1]
      h3 have r3: "shouldBuild snapshot_two ((''axios'', record_axios) # snapshot_two)
      \<and> shouldBuild ((''axios'', record_axios) # snapshot_two) snapshot_two"
    by (rule mp)
  from h4a h4b have h4: "map_of snapshot_two ''lodash'' = Some record_lodash
      \<and> version record_lodash_bumped \<noteq> version record_lodash"
    by (rule conjI)
  from T1
      [THEN conjunct2, THEN conjunct2, THEN conjunct2, THEN conjunct2,
       THEN conjunct2, THEN conjunct2, THEN conjunct2, THEN conjunct2,
       THEN conjunct1] h4
  have r4: "shouldBuild snapshot_two (AList.update ''lodash'' record_lodash_bumped snapshot_two)"
    by (rule mp)
  have r5: "list_ex is_build (new_events world_cached
          (snd (snd (buildDeps api_default False (Inr ((''axios'', record_axios) # snapshot_two))
                       outcome_success initial_plugin world_cached))))"
    unfolding T2 [THEN conjunct1] h2 [symmetric] using r3 by (rule conjunct1)
  have ne: "\<not> False" by simp
  from T1 [THEN conjunct2, THEN conjunct2, THEN conjunct1] ne
  have r6: "api_onBuildComplete api_default False (Inr snapshot_two) outcome_success
        initial_plugin world_cached
      = buildDeps api_default False (Inr snapshot_two) outcome_success initial_plugin world_cached"
    by (rule mp)
  from h5a h5b
  have h5: "at_index (positional args_build) 0 = Some ''build'' \<and> \<not> force args_build"
    by (rule conjI)
  from T1
      [THEN conjunct2, THEN conjunct2, THEN conjunct2, THEN conjunct1]
      h5 have r7: "mfsu_command api_default args_build (Inr snapshot_two) outcome_success
        initial_plugin world_cached
      = buildDeps api_default False (Inr snapshot_two) outcome_success initial_plugin world_cached"
    by (rule mp)
  from h6 h3
  have k1: "''axios'' \<in> snapshot_keys [(''axios'', record_axios), (''react'', record_react)]
      \<and> ''axios'' \<notin> snapshot_keys snapshot_two"
    by (rule conjI)
  from T3
      [THEN conjunct2, THEN conjunct2, THEN conjunct2, THEN conjunct2,
       THEN conjunct2, THEN conjunct2, THEN conjunct2, THEN conjunct2,
       THEN conjunct2, THEN conjunct1] k1
  have r8: "shouldBuild snapshot_two [(''axios'', record_axios), (''react'', record_react)]"
    by (rule mp)
  from T4
      [THEN conjunct2, THEN conjunct2, THEN conjunct2, THEN conjunct2,
       THEN conjunct2, THEN conjunct2, THEN conjunct2, THEN conjunct2,
       THEN conjunct2, THEN conjunct2, THEN conjunct1] k1
  have r9: "shouldBuild [(''axios'', record_axios), (''react'', record_react)] snapshot_two"
    by (rule mp)
  from h4a h10 h4b
  have k2: "map_of snapshot_two ''lodash'' = Some record_lodash
      \<and> map_of [(''react'', record_react), (''lodash'', record_lodash_bumped)] ''lodash''
          = Some record_lodash_bumped
      \<and> version record_lodash_bumped \<noteq> version record_lodash"
    by (intro conjI)
  from T5
      [THEN conjunct2, THEN conjunct2, THEN conjunct2, THEN conjunct2,
       THEN conjunct2, THEN conjunct2, THEN conjunct2, THEN conjunct2,
       THEN conjunct2, THEN conjunct2, THEN conjunct2, THEN conjunct1] k2
  have r10: "shouldBuild snapshot_two
      [(''react'', record_react), (''lodash'', record_lodash_bumped)]"
    by (rule mp)
  have k3: "(''axios'' \<in> snapshot_keys [(''axios'', record_axios), (''react'', record_react)])
      \<noteq> (''axios'' \<in> snapshot_keys (cache world_cached))"
    using h6 h3 unfolding h2 [symmetric] by simp
  then have k4: "(''axios'' \<in> snapshot_keys [(''axios'', record_axios), (''react'', record_react)])
      \<noteq> (''axios'' \<in> snapshot_keys (cache world_cached))
      \<or> (\<exists>k u v. map_of (cache world_cached) k = Some u
            \<and> map_of [(''axios'', record_axios), (''react'', record_react)] k = Some v
            \<and> version v \<noteq> version u)"
    by (rule disjI1)
  from T3
      [THEN conjunct2, THEN conjunct2, THEN conjunct2, THEN conjunct2,
       THEN conjunct2, THEN conjunct2, THEN conjunct2, THEN conjunct2,
       THEN conjunct2, THEN conjunct2, THEN conjunct2, THEN conjunct2,
       THEN conjunct2] k4
  have r11: "list_ex is_build (new_events world_cached
          (snd (snd (buildDeps api_default False
                       (Inr [(''axios'', record_axios), (''react'', record_react)])
                       outcome_success initial_plugin world_cached))))"
    by (rule mp)
  from r3 have r3a: "shouldBuild snapshot_two ((''axios'', record_axios) # snapshot_two)"
    by (rule conjunct1)
  from r3 have r3b: "shouldBuild ((''axios'', record_axios) # snapshot_two) snapshot_two"
    by (rule conjunct2)
  from h1a h1b r1 r6 h5a h5b r7 h2 r2 h3 r3a r3b r5 h4a h4b r4 h6 h7 h8 h9 r8 r9 h10 r10 r11
  show ?thesis by (intro conjI)
qed

text \<open>
  Claim C2. The persisted Snapshot is written if and only if the build completion
  reports success, that is, neither an error nor error-bearing stats. A completion with
  an error or with \<^verbatim>\<open>stats.hasErrors()\<close> true leaves the world as it is:
  \<^verbatim>\<open>writeCache\<close> is not called and the persisted Snapshot is unchanged. This holds of
  the callback, and of a whole call of \<^verbatim>\<open>buildDeps\<close>, where the cache is written once
  if a build is invoked and succeeds, and not otherwise.
\<close>

theorem cache_written_iff_success:
  "list_ex is_writeCache (new_events w (snd (onBuildComplete st err he w))) = (\<not> err \<and> \<not> he)
   \<and> (err \<or> he \<longrightarrow> onBuildComplete st err he w = (None, w))
   \<and> list_ex is_writeCache
        (new_events w (snd (snd (buildDeps a f (Inr deps) outcome st w))))
      = ((f \<or> shouldBuild (cache w) deps)
         \<and> \<not> build_err outcome \<and> \<not> stats_hasErrors outcome)
   \<and> (build_err outcome \<or> stats_hasErrors outcome \<longrightarrow>
        cache (snd (snd (buildDeps a f (Inr deps) outcome st w))) = cache w)
   \<and> ((f \<or> shouldBuild (cache w) deps)
        \<and> \<not> build_err outcome \<and> \<not> stats_hasErrors outcome \<longrightarrow>
        cache (snd (snd (buildDeps a f (Inr deps) outcome st w))) = deps)
   \<and> length (filter is_writeCache
        (new_events w (snd (snd (buildDeps a f (Inr deps) outcome st w)))))
      = (if (f \<or> shouldBuild (cache w) deps)
            \<and> \<not> build_err outcome \<and> \<not> stats_hasErrors outcome then 1 else 0)"
proof (intro conjI impI)
  show "list_ex is_writeCache (new_events w (snd (onBuildComplete st err he w)))
      = (\<not> err \<and> \<not> he)"
    by (simp add: new_events_def onBuildComplete_trace)
next
  assume "err \<or> he"
  then show "onBuildComplete st err he w = (None, w)"
    by (simp add: onBuildComplete_def)
next
  show "list_ex is_writeCache
        (new_events w (snd (snd (buildDeps a f (Inr deps) outcome st w))))
      = ((f \<or> shouldBuild (cache w) deps)
         \<and> \<not> build_err outcome \<and> \<not> stats_hasErrors outcome)"
    by (simp add: buildDeps_events)
next
  assume "build_err outcome \<or> stats_hasErrors outcome"
  then show "cache (snd (snd (buildDeps a f (Inr deps) outcome st w))) = cache w"
    by (auto simp: buildDeps_cache)
next
  assume "(f \<or> shouldBuild (cache w) deps)
        \<and> \<not> build_err outcome \<and> \<not> stats_hasErrors outcome"
  then show "cache (snd (snd (buildDeps a f (Inr deps) outcome st w))) = deps"
    by (simp add: buildDeps_cache)
next
  show "length (filter is_writeCache
        (new_events w (snd (snd (buildDeps a f (Inr deps) outcome st w)))))
      = (if (f \<or> shouldBuild (cache w) deps)
            \<and> \<not> build_err outcome \<and> \<not> stats_hasErrors outcome then 1 else 0)"
    by (simp add: buildDeps_events)
qed

theorem cache_written_iff_success_witness:
  "onBuildComplete initial_plugin True False world_cached = (None, world_cached)
   \<and> build_err outcome_failure
   \<and> cache (snd (snd (buildDeps api_default True (Inr [(''axios'', record_axios)])
                         outcome_failure initial_plugin world_cached))) = snapshot_two
   \<and> \<not> build_err outcome_success \<and> \<not> stats_hasErrors outcome_success
   \<and> cache (snd (snd (buildDeps api_default True (Inr [(''axios'', record_axios)])
                         outcome_success initial_plugin world_cached)))
       = [(''axios'', record_axios)]"
proof -
  have h0: "True \<or> False" by simp
  have b: "build_err outcome_failure" by (simp add: outcome_failure_def)
  then have h1: "build_err outcome_failure \<or> stats_hasErrors outcome_failure" by (rule disjI1)
  have s1: "\<not> build_err outcome_success" by (simp add: outcome_success_def)
  have s2: "\<not> stats_hasErrors outcome_success" by (simp add: outcome_success_def)
  from s1 s2
  have h2: "(True \<or> shouldBuild (cache world_cached) [(''axios'', record_axios)])
        \<and> \<not> build_err outcome_success \<and> \<not> stats_hasErrors outcome_success"
    by simp
  have c: "cache world_cached = snapshot_two"
    by (simp add: world_cached_def)
  note T1 = cache_written_iff_success
      [where st = initial_plugin and err = True and he = False and w = world_cached
         and a = api_default and f = True and deps = "[(''axios'', record_axios)]"
         and outcome = outcome_failure]
  note T2 = cache_written_iff_success
      [where w = world_cached and a = api_default and f = True
         and deps = "[(''axios'', record_axios)]" and outcome = outcome_success
         and st = initial_plugin]
  from T1 [THEN conjunct2, THEN conjunct1] h0
  have r1: "onBuildComplete initial_plugin True False world_cached = (None, world_cached)"
    by (rule mp)
  from T1
      [THEN conjunct2, THEN conjunct2, THEN conjunct2, THEN conjunct1] h1
  have r2: "cache (snd (snd (buildDeps api_default True
        (Inr [(''axios'', record_axios)]) outcome_failure initial_plugin world_cached)))
      = cache world_cached"
    by (rule mp)
  from T2
      [THEN conjunct2, THEN conjunct2, THEN conjunct2, THEN conjunct2,
       THEN conjunct1]
      h2 have r3: "cache (snd (snd (buildDeps api_default True
        (Inr [(''axios'', record_axios)]) outcome_success initial_plugin world_cached)))
      = [(''axios'', record_axios)]"
    by (rule mp)
  from r1 b r2 [unfolded c] s1 s2 r3 show ?thesis by (intro conjI)
qed

section \<open>Copy to the distribution directory\<close>








section \<open>Properties of the command\<close>



section \<open>Properties of the version resolver\<close>

lemma take_rev_Cons:
  "k \<le> length ds \<Longrightarrow> take k (rev (d # ds)) = take k (rev ds)"
  by simp

lemma probe_up_None:
  "(probe_up t rd pkg = None)
     = (\<forall>k \<le> length rd. t (take k (rev rd) @ install_dir # pkg) = None)"
proof (induction rd)
  case Nil
  then show ?case by (simp split: option.splits)
next
  case (Cons d ds)
  show ?case
  proof (cases "t (rev (d # ds) @ install_dir # pkg)")
    case None
    have "(\<forall>k \<le> length (d # ds). t (take k (rev (d # ds)) @ install_dir # pkg) = None)
        = (\<forall>k \<le> length ds. t (take k (rev ds) @ install_dir # pkg) = None)"
    proof
      assume a: "\<forall>k \<le> length (d # ds). t (take k (rev (d # ds)) @ install_dir # pkg) = None"
      show "\<forall>k \<le> length ds. t (take k (rev ds) @ install_dir # pkg) = None"
      proof (intro allI impI)
        fix k assume k: "k \<le> length ds"
        with a [rule_format, of k] show "t (take k (rev ds) @ install_dir # pkg) = None"
          by simp
      qed
    next
      assume a: "\<forall>k \<le> length ds. t (take k (rev ds) @ install_dir # pkg) = None"
      show "\<forall>k \<le> length (d # ds). t (take k (rev (d # ds)) @ install_dir # pkg) = None"
      proof (intro allI impI)
        fix k assume k: "k \<le> length (d # ds)"
        show "t (take k (rev (d # ds)) @ install_dir # pkg) = None"
        proof (cases "k \<le> length ds")
          case True
          with a show ?thesis by simp
        next
          case False
          with k have "k = Suc (length ds)" by simp
          with None show ?thesis by simp
        qed
      qed
    qed
    with None Cons.IH show ?thesis by simp
  next
    case (Some v)
    then have "\<not> (\<forall>k \<le> length (d # ds). t (take k (rev (d # ds)) @ install_dir # pkg) = None)"
      by (auto intro!: exI [of _ "Suc (length ds)"])
    with Some show ?thesis by simp
  qed
qed

lemma probe_up_nearest:
  assumes "k \<le> length rd"
    and "t (take k (rev rd) @ install_dir # pkg) = Some v"
    and "\<forall>j. k < j \<and> j \<le> length rd \<longrightarrow> t (take j (rev rd) @ install_dir # pkg) = None"
  shows "probe_up t rd pkg = Some (take k (rev rd) @ install_dir # pkg, v)"
  using assms
proof (induction rd)
  case Nil
  then show ?case by simp
next
  case (Cons d ds)
  show ?case
  proof (cases "k = Suc (length ds)")
    case True
    with Cons.prems(2) show ?thesis by simp
  next
    case False
    with Cons.prems(1) have k: "k \<le> length ds" by simp
    from Cons.prems(3) k have top: "t (rev (d # ds) @ install_dir # pkg) = None"
      by (auto dest!: spec [of _ "Suc (length ds)"])
    have below: "\<forall>j. k < j \<and> j \<le> length ds \<longrightarrow> t (take j (rev ds) @ install_dir # pkg) = None"
    proof (intro allI impI)
      fix j assume j: "k < j \<and> j \<le> length ds"
      with Cons.prems(3) [rule_format, of j] show "t (take j (rev ds) @ install_dir # pkg) = None"
        by simp
    qed
    from Cons.prems(2) k have "t (take k (rev ds) @ install_dir # pkg) = Some v" by simp
    with Cons.IH k below have "probe_up t ds pkg = Some (take k (rev ds) @ install_dir # pkg, v)"
      by blast
    with top k show ?thesis by simp
  qed
qed

lemma manifest_up_None:
  "(manifest_up t rl = None) = (\<forall>k \<le> length rl. t (take k (rev rl)) = None)"
proof (induction rl)
  case Nil
  then show ?case by (simp split: option.splits)
next
  case (Cons d ds)
  show ?case
  proof (cases "t (rev (d # ds))")
    case None
    have "(\<forall>k \<le> length (d # ds). t (take k (rev (d # ds))) = None)
        = (\<forall>k \<le> length ds. t (take k (rev ds)) = None)"
    proof
      assume a: "\<forall>k \<le> length (d # ds). t (take k (rev (d # ds))) = None"
      show "\<forall>k \<le> length ds. t (take k (rev ds)) = None"
      proof (intro allI impI)
        fix k assume k: "k \<le> length ds"
        with a [rule_format, of k] show "t (take k (rev ds)) = None"
          by simp
      qed
    next
      assume a: "\<forall>k \<le> length ds. t (take k (rev ds)) = None"
      show "\<forall>k \<le> length (d # ds). t (take k (rev (d # ds))) = None"
      proof (intro allI impI)
        fix k assume k: "k \<le> length (d # ds)"
        show "t (take k (rev (d # ds))) = None"
        proof (cases "k \<le> length ds")
          case True
          with a show ?thesis by simp
        next
          case False
          with k have "k = Suc (length ds)" by simp
          with None show ?thesis by simp
        qed
      qed
    qed
    with None Cons.IH show ?thesis by simp
  next
    case (Some v)
    then have "\<not> (\<forall>k \<le> length (d # ds). t (take k (rev (d # ds))) = None)"
      by (auto intro!: exI [of _ "Suc (length ds)"])
    with Some show ?thesis by simp
  qed
qed

lemma manifest_up_nearest:
  assumes "k \<le> length rl"
    and "t (take k (rev rl)) = Some v"
    and "\<forall>j. k < j \<and> j \<le> length rl \<longrightarrow> t (take j (rev rl)) = None"
  shows "manifest_up t rl = Some (take k (rev rl), v)"
  using assms
proof (induction rl)
  case Nil
  then show ?case by simp
next
  case (Cons d ds)
  show ?case
  proof (cases "k = Suc (length ds)")
    case True
    with Cons.prems(2) show ?thesis by simp
  next
    case False
    with Cons.prems(1) have k: "k \<le> length ds" by simp
    from Cons.prems(3) k have top: "t (rev (d # ds)) = None"
      by (auto dest!: spec [of _ "Suc (length ds)"])
    have below: "\<forall>j. k < j \<and> j \<le> length ds \<longrightarrow> t (take j (rev ds)) = None"
    proof (intro allI impI)
      fix j assume j: "k < j \<and> j \<le> length ds"
      with Cons.prems(3) [rule_format, of j] show "t (take j (rev ds)) = None"
        by simp
    qed
    from Cons.prems(2) k have "t (take k (rev ds)) = Some v" by simp
    with Cons.IH k below have "manifest_up t ds = Some (take k (rev ds), v)"
      by blast
    with top k show ?thesis by simp
  qed
qed

lemma resolve_installed_Unresolved:
  "(resolve_installed t c s = Inl e)
     = (e = UnresolvedDependency s
        \<and> (\<forall>k \<le> length (segments c).
              t (take k (segments c) @ install_dir # fst (package_root (segments s))) = None))"
proof (cases "probe_up t (rev (segments c)) (fst (package_root (segments s)))")
  case None
  then show ?thesis
    using probe_up_None [of t "rev (segments c)" "fst (package_root (segments s))"]
    by (auto simp: resolve_installed_def split: prod.splits)
next
  case (Some a)
  then show ?thesis
    using probe_up_None [of t "rev (segments c)" "fst (package_root (segments s))"]
    by (auto simp: resolve_installed_def split: prod.splits)
qed

lemma resolve_installed_nearest:
  assumes "k \<le> length (segments c)"
    and "t (take k (segments c) @ install_dir # fst (package_root (segments s))) = Some v"
    and "\<forall>j. k < j \<and> j \<le> length (segments c) \<longrightarrow>
           t (take j (segments c) @ install_dir # fst (package_root (segments s))) = None"
  shows "\<exists>r. resolve_installed t c s = Inr r \<and> version r = v"
  using probe_up_nearest [of k "rev (segments c)" t "fst (package_root (segments s))" v] assms
  by (auto simp: resolve_installed_def split: prod.splits)

lemma resolve_absolute_Unresolved:
  "(resolve_absolute t s loc = Inl e)
     = (e = UnresolvedDependency s \<and> (\<forall>k \<le> length loc. t (take k loc) = None))"
  using manifest_up_None [of t "rev loc"]
  by (cases "manifest_up t (rev loc)") (auto simp: resolve_absolute_def)

lemma resolve_absolute_nearest:
  assumes "k \<le> length loc" and "t (take k loc) = Some v"
    and "\<forall>j. k < j \<and> j \<le> length loc \<longrightarrow> t (take j loc) = None"
  shows "\<exists>r. resolve_absolute t s loc = Inr r \<and> version r = v"
  using manifest_up_nearest [of k "rev loc" t v] assms
  by (auto simp: resolve_absolute_def)

text \<open>
  Claim C8. The resolver fails with \<^verbatim>\<open>UnresolvedDependency\<close> exactly when no package
  manifest can be located for the specifier. A lookup in the install tree probes the
  install directory of \<^verbatim>\<open>cwd\<close> and of each ancestor up to the file-system root: it
  fails exactly when none of them holds a manifest for the package root, and otherwise
  yields the version found at the nearest one. An absolute specifier, and an alias that
  targets an absolute path, fail exactly when no directory from that location up to the
  root holds a manifest. An alias that targets a specifier resolves as its target does.
  In the first three cases the resolver returns.
\<close>

theorem unresolved_iff_no_manifest:
  "(isAbsolute s \<longrightarrow>
      resolve (Suc n) t al c s \<noteq> None
      \<and> (resolve (Suc n) t al c s = Some (Inl e))
          = (e = UnresolvedDependency s
             \<and> (\<forall>k \<le> length (segments s). t (take k (segments s)) = None)))
   \<and> (\<not> isAbsolute s \<and> alias_lookup al s = Some (m, target) \<and> isAbsolute target \<longrightarrow>
      resolve (Suc n) t al c s \<noteq> None
      \<and> (resolve (Suc n) t al c s = Some (Inl e))
          = (e = UnresolvedDependency s
             \<and> (\<forall>k \<le> length (segments target @ drop m (segments s)).
                   t (take k (segments target @ drop m (segments s))) = None)))
   \<and> (\<not> isAbsolute s \<and> alias_lookup al s = Some (m, target) \<and> \<not> isAbsolute target \<longrightarrow>
      resolve (Suc n) t al c s = resolve n t al c target)
   \<and> (\<not> isAbsolute s \<and> alias_lookup al s = None \<longrightarrow>
      resolve (Suc n) t al c s \<noteq> None
      \<and> (resolve (Suc n) t al c s = Some (Inl e))
          = (e = UnresolvedDependency s
             \<and> (\<forall>k \<le> length (segments c).
                   t (take k (segments c) @ install_dir # fst (package_root (segments s)))
                     = None))
      \<and> (i \<le> length (segments c)
          \<and> t (take i (segments c) @ install_dir # fst (package_root (segments s))) = Some v
          \<and> (\<forall>j. i < j \<and> j \<le> length (segments c) \<longrightarrow>
                t (take j (segments c) @ install_dir # fst (package_root (segments s))) = None)
          \<longrightarrow> getDepVersion (Suc n) t s c al = Some (Inr v)))"
proof (intro conjI impI)
  assume a: "isAbsolute s"
  then show "resolve (Suc n) t al c s \<noteq> None" by simp
  from a show "(resolve (Suc n) t al c s = Some (Inl e))
          = (e = UnresolvedDependency s
             \<and> (\<forall>k \<le> length (segments s). t (take k (segments s)) = None))"
    by (simp add: resolve_absolute_Unresolved)
next
  assume a: "\<not> isAbsolute s \<and> alias_lookup al s = Some (m, target) \<and> isAbsolute target"
  then show "resolve (Suc n) t al c s \<noteq> None" by simp
  from a show "(resolve (Suc n) t al c s = Some (Inl e))
          = (e = UnresolvedDependency s
             \<and> (\<forall>k \<le> length (segments target @ drop m (segments s)).
                   t (take k (segments target @ drop m (segments s))) = None))"
    by (simp add: resolve_absolute_Unresolved)
next
  assume "\<not> isAbsolute s \<and> alias_lookup al s = Some (m, target) \<and> \<not> isAbsolute target"
  then show "resolve (Suc n) t al c s = resolve n t al c target" by simp
next
  assume a: "\<not> isAbsolute s \<and> alias_lookup al s = None"
  then show "resolve (Suc n) t al c s \<noteq> None" by simp
  from a show "(resolve (Suc n) t al c s = Some (Inl e))
          = (e = UnresolvedDependency s
             \<and> (\<forall>k \<le> length (segments c).
                   t (take k (segments c) @ install_dir # fst (package_root (segments s)))
                     = None))"
    by (simp add: resolve_installed_Unresolved)
  assume "i \<le> length (segments c)
          \<and> t (take i (segments c) @ install_dir # fst (package_root (segments s))) = Some v
          \<and> (\<forall>j. i < j \<and> j \<le> length (segments c) \<longrightarrow>
                t (take j (segments c) @ install_dir # fst (package_root (segments s))) = None)"
  then obtain r where "resolve_installed t c s = Inr r" and "version r = v"
    using resolve_installed_nearest [of i c t s v] by blast
  with a show "getDepVersion (Suc n) t s c al = Some (Inr v)"
    by (simp add: getDepVersion_def)
qed


theorem unresolved_iff_no_manifest_witness:
  "isAbsolute ''/bar/baz''
   \<and> resolve 1 tree_project [] ''/root'' ''/bar/baz''
       = Some (Inl (UnresolvedDependency ''/bar/baz''))
   \<and> tree_project (take 1 (segments ''/bar/baz'')) = None
   \<and> (\<not> isAbsolute ''foo'' \<and> alias_lookup [(''foo'', ''/bar'')] ''foo'' = Some (1, ''/bar'')
      \<and> isAbsolute ''/bar'')
   \<and> resolve 1 tree_project [(''foo'', ''/bar'')] ''/root'' ''foo''
       = Some (Inl (UnresolvedDependency ''foo''))
   \<and> tree_project (take 1 (segments ''/bar'' @ drop 1 (segments ''foo''))) = None
   \<and> (\<not> isAbsolute ''foo/bar.js''
      \<and> alias_lookup [(''foo'', ''@babel/core'')] ''foo/bar.js'' = Some (1, ''@babel/core'')
      \<and> \<not> isAbsolute ''@babel/core'')
   \<and> resolve 2 tree_project [(''foo'', ''@babel/core'')] ''/root'' ''foo/bar.js''
       = resolve 1 tree_project [(''foo'', ''@babel/core'')] ''/root'' ''@babel/core''
   \<and> (\<not> isAbsolute ''@babel/core/src/xxx.js'' \<and> alias_lookup [] ''@babel/core/src/xxx.js'' = None)
   \<and> (1 \<le> length (segments ''/root/packages/a/src'')
      \<and> tree_project (take 1 (segments ''/root/packages/a/src'') @ install_dir
            # fst (package_root (segments ''@babel/core/src/xxx.js''))) = Some ''7.14.0'')
   \<and> getDepVersion 1 tree_project ''@babel/core/src/xxx.js'' ''/root/packages/a/src'' []
       = Some (Inr ''7.14.0'')
   \<and> (\<not> isAbsolute ''foooooooo'' \<and> alias_lookup [] ''foooooooo'' = None)
   \<and> resolve 1 tree_project [] ''/root'' ''foooooooo''
       = Some (Inl (UnresolvedDependency ''foooooooo''))
   \<and> tree_project (take 1 (segments ''/root'') @ install_dir
         # fst (package_root (segments ''foooooooo''))) = None"
proof -
  have a1: "isAbsolute ''/bar/baz''" by code_simp
  have e1: "resolve 1 tree_project [] ''/root'' ''/bar/baz''
       = Some (Inl (UnresolvedDependency ''/bar/baz''))" by code_simp
  have a2: "\<not> isAbsolute ''foo'' \<and> alias_lookup [(''foo'', ''/bar'')] ''foo'' = Some (1, ''/bar'')
      \<and> isAbsolute ''/bar''" by code_simp
  have e2: "resolve 1 tree_project [(''foo'', ''/bar'')] ''/root'' ''foo''
       = Some (Inl (UnresolvedDependency ''foo''))" by code_simp
  have a3: "\<not> isAbsolute ''foo/bar.js''
      \<and> alias_lookup [(''foo'', ''@babel/core'')] ''foo/bar.js'' = Some (1, ''@babel/core'')
      \<and> \<not> isAbsolute ''@babel/core''" by code_simp
  have a4: "\<not> isAbsolute ''@babel/core/src/xxx.js''
      \<and> alias_lookup [] ''@babel/core/src/xxx.js'' = None" by code_simp
  have a5: "\<not> isAbsolute ''foooooooo'' \<and> alias_lookup [] ''foooooooo'' = None" by code_simp
  have e5: "resolve 1 tree_project [] ''/root'' ''foooooooo''
       = Some (Inl (UnresolvedDependency ''foooooooo''))" by code_simp
  have sc: "segments ''/root/packages/a/src'' = [''root'', ''packages'', ''a'', ''src'']"
    by code_simp
  have sp: "fst (package_root (segments ''@babel/core/src/xxx.js'')) = [''@babel'', ''core'']"
    by code_simp
  have n1: "tree_project (take 1 (segments ''/root/packages/a/src'') @ install_dir
            # fst (package_root (segments ''@babel/core/src/xxx.js''))) = Some ''7.14.0''"
    by code_simp
  have n2: "\<forall>j. 1 < j \<and> j \<le> length (segments ''/root/packages/a/src'') \<longrightarrow>
            tree_project (take j (segments ''/root/packages/a/src'') @ install_dir
              # fst (package_root (segments ''@babel/core/src/xxx.js''))) = None"
  proof (intro allI impI)
    fix j :: nat
    assume "1 < j \<and> j \<le> length (segments ''/root/packages/a/src'')"
    then consider "j = 2" | "j = 3" | "j = 4" unfolding sc by force
    then show "tree_project (take j (segments ''/root/packages/a/src'') @ install_dir
              # fst (package_root (segments ''@babel/core/src/xxx.js''))) = None"
      unfolding sc sp by cases (simp_all add: tree_project_def install_dir_def)
  qed
  have a6: "1 \<le> length (segments ''/root/packages/a/src'')" unfolding sc by simp
  note T1 = unresolved_iff_no_manifest
      [where s = "''/bar/baz''" and n = 0 and t = tree_project and al = "[]" and c = "''/root''"
         and e = "UnresolvedDependency ''/bar/baz''"]
  note T2 = unresolved_iff_no_manifest
      [where s = "''foo''" and n = 0 and t = tree_project and al = "[(''foo'', ''/bar'')]"
         and c = "''/root''" and e = "UnresolvedDependency ''foo''" and m = 1
         and target = "''/bar''"]
  note T3 = unresolved_iff_no_manifest
      [where s = "''foo/bar.js''" and n = 1 and t = tree_project
         and al = "[(''foo'', ''@babel/core'')]" and c = "''/root''" and m = 1
         and target = "''@babel/core''"]
  note T4 = unresolved_iff_no_manifest
      [where s = "''@babel/core/src/xxx.js''" and n = 0 and t = tree_project and al = "[]"
         and c = "''/root/packages/a/src''" and i = 1 and v = "''7.14.0''"]
  note T5 = unresolved_iff_no_manifest
      [where s = "''foooooooo''" and n = 0 and t = tree_project and al = "[]"
         and c = "''/root''" and e = "UnresolvedDependency ''foooooooo''"]
  from T1 a1 e1 have r1: "\<forall>k \<le> length (segments ''/bar/baz'').
      tree_project (take k (segments ''/bar/baz'')) = None"
    by simp
  from T2 a2 e2 have r2: "\<forall>k \<le> length (segments ''/bar'' @ drop 1 (segments ''foo'')).
         tree_project (take k (segments ''/bar'' @ drop 1 (segments ''foo''))) = None"
    by simp
  from T3 a3 have r3: "resolve 2 tree_project [(''foo'', ''@babel/core'')] ''/root'' ''foo/bar.js''
       = resolve 1 tree_project [(''foo'', ''@babel/core'')] ''/root'' ''@babel/core''"
    by (simp add: numeral_2_eq_2)
  from T4 a4 a6 n1 n2
  have r4: "getDepVersion 1 tree_project ''@babel/core/src/xxx.js'' ''/root/packages/a/src'' []
       = Some (Inr ''7.14.0'')"
    by simp
  from T5 a5 e5 have r5: "\<forall>k \<le> length (segments ''/root'').
         tree_project (take k (segments ''/root'') @ install_dir
           # fst (package_root (segments ''foooooooo''))) = None"
    by simp
  have l1: "1 \<le> length (segments ''/bar/baz'')" by code_simp
  have l2: "1 \<le> length (segments ''/bar'' @ drop 1 (segments ''foo''))" by code_simp
  have l5: "1 \<le> length (segments ''/root'')" by code_simp
  from r1 l1 have i1: "tree_project (take 1 (segments ''/bar/baz'')) = None" by blast
  from r2 l2 have i2: "tree_project (take 1 (segments ''/bar'' @ drop 1 (segments ''foo''))) = None"
    by blast
  from r5 l5 have i5: "tree_project (take 1 (segments ''/root'') @ install_dir
         # fst (package_root (segments ''foooooooo''))) = None"
    by blast
  from a1 e1 i1 a2 e2 i2 a3 r3 a4 a6 n1 r4 a5 e5 i5 show ?thesis by blast
qed

lemma alias_prefix_empty: "alias_prefix [] segs n = None"
  by (induction n) simp_all

lemma alias_lookup_empty: "alias_lookup [] s = None"
  by (simp add: alias_lookup_def alias_prefix_empty)

lemma resolve_absolute_version:
  "(\<exists>r. resolve_absolute t s loc = Inr r \<and> version r = v)
     = (\<exists>r. resolve_absolute t s' loc = Inr r \<and> version r = v)"
  by (auto simp: resolve_absolute_def split: option.splits)

lemma manifest_up_skip:
  assumes "\<forall>k. length tg < k \<and> k \<le> length (tg @ rm) \<longrightarrow> t (take k (tg @ rm)) = None"
  shows "manifest_up t (rev (tg @ rm)) = manifest_up t (rev tg)"
  using assms
proof (induction rm rule: rev_induct)
  case Nil
  then show ?case by simp
next
  case (snoc x xs)
  have top: "t (tg @ xs @ [x]) = None"
    using snoc.prems [rule_format, of "length (tg @ xs @ [x])"] by simp
  have "\<forall>k. length tg < k \<and> k \<le> length (tg @ xs) \<longrightarrow> t (take k (tg @ xs)) = None"
  proof (intro allI impI)
    fix k assume k: "length tg < k \<and> k \<le> length (tg @ xs)"
    with snoc.prems [rule_format, of k] show "t (take k (tg @ xs)) = None" by simp
  qed
  with snoc.IH have "manifest_up t (rev (tg @ xs)) = manifest_up t (rev tg)" by blast
  with top show ?case by simp
qed

lemma getDepVersion_absolute:
  "isAbsolute p \<Longrightarrow>
   (getDepVersion (Suc n) t p c al = Some (Inr v))
     = (\<exists>r. resolve_absolute t p (segments p) = Inr r \<and> version r = v)"
  by (auto simp: getDepVersion_def split: sum.splits)

lemma getDepVersion_alias_absolute:
  "\<not> isAbsolute s \<Longrightarrow> alias_lookup al s = Some (m, target) \<Longrightarrow> isAbsolute target \<Longrightarrow>
   (getDepVersion (Suc n) t s c al = Some (Inr v))
     = (\<exists>r. resolve_absolute t s (segments target @ drop m (segments s)) = Inr r
            \<and> version r = v)"
  by (auto simp: getDepVersion_def split: sum.splits)

lemma getDepVersion_alias_specifier:
  "\<not> isAbsolute s \<Longrightarrow> alias_lookup al s = Some (m, target) \<Longrightarrow> \<not> isAbsolute target \<Longrightarrow>
   getDepVersion (Suc n) t s c al = getDepVersion n t target c al"
  by (simp add: getDepVersion_def)

lemma getDepVersion_installed:
  "\<not> isAbsolute s \<Longrightarrow> alias_lookup al s = None \<Longrightarrow>
   getDepVersion (Suc n) t s c al = getDepVersion (Suc n') t s c []"
  by (simp add: getDepVersion_def alias_lookup_empty)

text \<open>
  Claim C7, as stated: through an alias, also with a sub-path remainder appended to the
  aliased specifier, the resolver returns the version of the alias's ultimate target.
  It fails for an alias to a directory with a remainder that leads into a package of its
  own: the remainder is appended to the path before the manifest is searched for, and
  the nearest manifest above the longer path is the one of the inner package. Here the
  specifier resolves through the alias, it resolves directly, and so does the target.
\<close>

theorem alias_remainder_counterexample:
  "alias_lookup [(''pkgs'', ''/root/packages'')] ''pkgs/a/index'' = Some (1, ''/root/packages'')
   \<and> getDepVersion 3 tree_project ''pkgs/a/index'' ''/root'' [(''pkgs'', ''/root/packages'')]
       = Some (Inr ''2.0.0'')
   \<and> getDepVersion 3 tree_project ''/root/packages'' ''/root'' [] = Some (Inr ''1.0.0'')
   \<and> getDepVersion 3 tree_project ''pkgs/a/index'' ''/root'' [] = Some (Inr ''3.0.0'')"
  by code_simp

text \<open>
  Claim C7, amended. For a specifier that resolves through an alias chain of length at
  most 2, the resolver returns the same version as resolving the ultimate target of the
  chain directly
  \<^item> when that target is a specifier, whether or not a remainder is appended to the
    aliased specifier;
  \<^item> when that target is an absolute path and no directory along the appended remainder,
    below the target, holds a manifest; in particular when there is no remainder.

  In general the remainder is appended to an absolute target first, and the version is
  the one of resolving the resulting path directly.
\<close>

theorem alias_resolves_as_target:
  "(\<not> isAbsolute s \<and> alias_lookup al s = Some (m, target) \<and> isAbsolute target
      \<and> isAbsolute p \<and> segments p = segments target @ drop m (segments s) \<longrightarrow>
      (getDepVersion (Suc n) t s c al = Some (Inr v))
        = (getDepVersion (Suc n') t p c [] = Some (Inr v)))
   \<and> (\<not> isAbsolute s \<and> alias_lookup al s = Some (m, target) \<and> isAbsolute target
      \<and> (\<forall>k. length (segments target) < k
               \<and> k \<le> length (segments target @ drop m (segments s)) \<longrightarrow>
             t (take k (segments target @ drop m (segments s))) = None) \<longrightarrow>
      (getDepVersion (Suc n) t s c al = Some (Inr v))
        = (getDepVersion (Suc n') t target c [] = Some (Inr v)))
   \<and> (\<not> isAbsolute s \<and> alias_lookup al s = Some (m, target) \<and> \<not> isAbsolute target
      \<and> alias_lookup al target = None \<longrightarrow>
      getDepVersion (Suc (Suc n)) t s c al = getDepVersion (Suc n') t target c [])
   \<and> (\<not> isAbsolute s \<and> alias_lookup al s = Some (m, via) \<and> \<not> isAbsolute via
      \<and> alias_lookup al via = Some (m', target) \<and> isAbsolute target
      \<and> isAbsolute p \<and> segments p = segments target @ drop m' (segments via) \<longrightarrow>
      (getDepVersion (Suc (Suc n)) t s c al = Some (Inr v))
        = (getDepVersion (Suc n') t p c [] = Some (Inr v)))
   \<and> (\<not> isAbsolute s \<and> alias_lookup al s = Some (m, via) \<and> \<not> isAbsolute via
      \<and> alias_lookup al via = Some (m', target) \<and> isAbsolute target
      \<and> (\<forall>k. length (segments target) < k
               \<and> k \<le> length (segments target @ drop m' (segments via)) \<longrightarrow>
             t (take k (segments target @ drop m' (segments via))) = None) \<longrightarrow>
      (getDepVersion (Suc (Suc n)) t s c al = Some (Inr v))
        = (getDepVersion (Suc n') t target c [] = Some (Inr v)))
   \<and> (\<not> isAbsolute s \<and> alias_lookup al s = Some (m, via) \<and> \<not> isAbsolute via
      \<and> alias_lookup al via = Some (m', target) \<and> \<not> isAbsolute target
      \<and> alias_lookup al target = None \<longrightarrow>
      getDepVersion (Suc (Suc (Suc n))) t s c al = getDepVersion (Suc n') t target c [])"
proof (intro conjI impI)
  assume a: "\<not> isAbsolute s \<and> alias_lookup al s = Some (m, target) \<and> isAbsolute target
      \<and> isAbsolute p \<and> segments p = segments target @ drop m (segments s)"
  then have "(getDepVersion (Suc n) t s c al = Some (Inr v))
      = (\<exists>r. resolve_absolute t s (segments p) = Inr r \<and> version r = v)"
    by (simp add: getDepVersion_alias_absolute)
  also have "\<dots> = (\<exists>r. resolve_absolute t p (segments p) = Inr r \<and> version r = v)"
    by (rule resolve_absolute_version)
  also from a have "\<dots> = (getDepVersion (Suc n') t p c [] = Some (Inr v))"
    by (simp add: getDepVersion_absolute)
  finally show "(getDepVersion (Suc n) t s c al = Some (Inr v))
        = (getDepVersion (Suc n') t p c [] = Some (Inr v))" .
next
  assume a: "\<not> isAbsolute s \<and> alias_lookup al s = Some (m, target) \<and> isAbsolute target
      \<and> (\<forall>k. length (segments target) < k
               \<and> k \<le> length (segments target @ drop m (segments s)) \<longrightarrow>
             t (take k (segments target @ drop m (segments s))) = None)"
  then have skip: "manifest_up t (rev (segments target @ drop m (segments s)))
      = manifest_up t (rev (segments target))"
    by (intro manifest_up_skip) blast
  from a have "(getDepVersion (Suc n) t s c al = Some (Inr v))
      = (\<exists>r. resolve_absolute t s (segments target @ drop m (segments s)) = Inr r
             \<and> version r = v)"
    by (simp add: getDepVersion_alias_absolute)
  also from skip have "\<dots> = (\<exists>r. resolve_absolute t target (segments target) = Inr r
             \<and> version r = v)"
    by (auto simp: resolve_absolute_def split: option.splits)
  also from a have "\<dots> = (getDepVersion (Suc n') t target c [] = Some (Inr v))"
    by (simp add: getDepVersion_absolute)
  finally show "(getDepVersion (Suc n) t s c al = Some (Inr v))
        = (getDepVersion (Suc n') t target c [] = Some (Inr v))" .
next
  assume a: "\<not> isAbsolute s \<and> alias_lookup al s = Some (m, target) \<and> \<not> isAbsolute target
      \<and> alias_lookup al target = None"
  then have "getDepVersion (Suc (Suc n)) t s c al = getDepVersion (Suc n) t target c al"
    by (simp add: getDepVersion_alias_specifier)
  also from a have "\<dots> = getDepVersion (Suc n') t target c []"
    by (simp add: getDepVersion_installed)
  finally show "getDepVersion (Suc (Suc n)) t s c al = getDepVersion (Suc n') t target c []" .
next
  assume a: "\<not> isAbsolute s \<and> alias_lookup al s = Some (m, via) \<and> \<not> isAbsolute via
      \<and> alias_lookup al via = Some (m', target) \<and> isAbsolute target
      \<and> isAbsolute p \<and> segments p = segments target @ drop m' (segments via)"
  then have "getDepVersion (Suc (Suc n)) t s c al = getDepVersion (Suc n) t via c al"
    by (simp add: getDepVersion_alias_specifier)
  then have "(getDepVersion (Suc (Suc n)) t s c al = Some (Inr v))
      = (getDepVersion (Suc n) t via c al = Some (Inr v))"
    by simp
  also from a have "\<dots> = (\<exists>r. resolve_absolute t via (segments p) = Inr r \<and> version r = v)"
    by (simp add: getDepVersion_alias_absolute)
  also have "\<dots> = (\<exists>r. resolve_absolute t p (segments p) = Inr r \<and> version r = v)"
    by (rule resolve_absolute_version)
  also from a have "\<dots> = (getDepVersion (Suc n') t p c [] = Some (Inr v))"
    by (simp add: getDepVersion_absolute)
  finally show "(getDepVersion (Suc (Suc n)) t s c al = Some (Inr v))
        = (getDepVersion (Suc n') t p c [] = Some (Inr v))" .
next
  assume a: "\<not> isAbsolute s \<and> alias_lookup al s = Some (m, via) \<and> \<not> isAbsolute via
      \<and> alias_lookup al via = Some (m', target) \<and> isAbsolute target
      \<and> (\<forall>k. length (segments target) < k
               \<and> k \<le> length (segments target @ drop m' (segments via)) \<longrightarrow>
             t (take k (segments target @ drop m' (segments via))) = None)"
  then have skip: "manifest_up t (rev (segments target @ drop m' (segments via)))
      = manifest_up t (rev (segments target))"
    by (intro manifest_up_skip) blast
  from a have "getDepVersion (Suc (Suc n)) t s c al = getDepVersion (Suc n) t via c al"
    by (simp add: getDepVersion_alias_specifier)
  then have "(getDepVersion (Suc (Suc n)) t s c al = Some (Inr v))
      = (getDepVersion (Suc n) t via c al = Some (Inr v))"
    by simp
  also from a have "\<dots> = (\<exists>r. resolve_absolute t via (segments target @ drop m' (segments via))
             = Inr r \<and> version r = v)"
    by (simp add: getDepVersion_alias_absolute)
  also from skip have "\<dots> = (\<exists>r. resolve_absolute t target (segments target) = Inr r
             \<and> version r = v)"
    by (auto simp: resolve_absolute_def split: option.splits)
  also from a have "\<dots> = (getDepVersion (Suc n') t target c [] = Some (Inr v))"
    by (simp add: getDepVersion_absolute)
  finally show "(getDepVersion (Suc (Suc n)) t s c al = Some (Inr v))
        = (getDepVersion (Suc n') t target c [] = Some (Inr v))" .
next
  assume a: "\<not> isAbsolute s \<and> alias_lookup al s = Some (m, via) \<and> \<not> isAbsolute via
      \<and> alias_lookup al via = Some (m', target) \<and> \<not> isAbsolute target
      \<and> alias_lookup al target = None"
  then have "getDepVersion (Suc (Suc (Suc n))) t s c al = getDepVersion (Suc (Suc n)) t via c al"
    by (simp add: getDepVersion_alias_specifier)
  also from a have "\<dots> = getDepVersion (Suc n) t target c al"
    by (simp add: getDepVersion_alias_specifier)
  also from a have "\<dots> = getDepVersion (Suc n') t target c []"
    by (simp add: getDepVersion_installed)
  finally show "getDepVersion (Suc (Suc (Suc n))) t s c al
      = getDepVersion (Suc n') t target c []" .
qed


theorem alias_resolves_as_target_witness:
  "(\<not> isAbsolute ''pkgs/a/index''
      \<and> alias_lookup alias_directory ''pkgs/a/index'' = Some (1, ''/root/packages'')
      \<and> isAbsolute ''/root/packages'' \<and> isAbsolute ''/root/packages/a/index''
      \<and> segments ''/root/packages/a/index''
          = segments ''/root/packages'' @ drop 1 (segments ''pkgs/a/index''))
   \<and> getDepVersion 1 tree_project ''pkgs/a/index'' ''/root'' alias_directory
       = Some (Inr ''2.0.0'')
   \<and> getDepVersion 1 tree_project ''/root/packages/a/index'' ''/root'' [] = Some (Inr ''2.0.0'')
   \<and> (\<not> isAbsolute ''foo/bar''
      \<and> alias_lookup alias_file ''foo/bar''
          = Some (1, ''/root/node_modules/@babel/core/src/transform-file-browser'')
      \<and> isAbsolute ''/root/node_modules/@babel/core/src/transform-file-browser''
      \<and> tree_project
           (segments ''/root/node_modules/@babel/core/src/transform-file-browser''
            @ drop 1 (segments ''foo/bar'')) = None)
   \<and> getDepVersion 1 tree_project ''foo/bar'' ''/root'' alias_file = Some (Inr ''7.14.0'')
   \<and> getDepVersion 1 tree_project ''/root/node_modules/@babel/core/src/transform-file-browser''
        ''/root'' [] = Some (Inr ''7.14.0'')
   \<and> (\<not> isAbsolute ''foo/bar.js''
      \<and> alias_lookup alias_specifier ''foo/bar.js'' = Some (1, ''@babel/core'')
      \<and> \<not> isAbsolute ''@babel/core'' \<and> alias_lookup alias_specifier ''@babel/core'' = None)
   \<and> getDepVersion 2 tree_project ''foo/bar.js'' ''/root'' alias_specifier
       = Some (Inr ''7.14.0'')
   \<and> getDepVersion 1 tree_project ''@babel/core'' ''/root'' [] = Some (Inr ''7.14.0'')
   \<and> (\<not> isAbsolute ''foo/x''
      \<and> alias_lookup alias_chain_absolute ''foo/x'' = Some (1, ''bar'') \<and> \<not> isAbsolute ''bar''
      \<and> alias_lookup alias_chain_absolute ''bar'' = Some (1, ''/root/node_modules/lodash'')
      \<and> isAbsolute ''/root/node_modules/lodash''
      \<and> drop 1 (segments ''bar'') = [])
   \<and> getDepVersion 2 tree_project ''foo/x'' ''/root'' alias_chain_absolute
       = Some (Inr ''4.17.21'')
   \<and> getDepVersion 1 tree_project ''/root/node_modules/lodash'' ''/root'' []
       = Some (Inr ''4.17.21'')
   \<and> (\<not> isAbsolute ''foo''
      \<and> alias_lookup alias_chain_directory ''foo'' = Some (1, ''pkgs/a'')
      \<and> \<not> isAbsolute ''pkgs/a''
      \<and> alias_lookup alias_chain_directory ''pkgs/a'' = Some (1, ''/root/packages'')
      \<and> isAbsolute ''/root/packages'' \<and> isAbsolute ''/root/packages/a''
      \<and> segments ''/root/packages/a'' = segments ''/root/packages'' @ drop 1 (segments ''pkgs/a''))
   \<and> getDepVersion 2 tree_project ''foo'' ''/root'' alias_chain_directory = Some (Inr ''2.0.0'')
   \<and> getDepVersion 1 tree_project ''/root/packages/a'' ''/root'' [] = Some (Inr ''2.0.0'')
   \<and> (\<not> isAbsolute ''foo''
      \<and> alias_lookup alias_chain_specifier ''foo'' = Some (1, ''bar'') \<and> \<not> isAbsolute ''bar''
      \<and> alias_lookup alias_chain_specifier ''bar'' = Some (1, ''lodash'')
      \<and> \<not> isAbsolute ''lodash'' \<and> alias_lookup alias_chain_specifier ''lodash'' = None)
   \<and> getDepVersion 3 tree_project ''foo'' ''/root'' alias_chain_specifier
       = Some (Inr ''4.17.21'')
   \<and> getDepVersion 1 tree_project ''lodash'' ''/root'' [] = Some (Inr ''4.17.21'')"
proof -
  have hA: "\<not> isAbsolute ''pkgs/a/index''
      \<and> alias_lookup alias_directory ''pkgs/a/index'' = Some (1, ''/root/packages'')
      \<and> isAbsolute ''/root/packages'' \<and> isAbsolute ''/root/packages/a/index''
      \<and> segments ''/root/packages/a/index''
          = segments ''/root/packages'' @ drop 1 (segments ''pkgs/a/index'')"
    by code_simp
  have dA: "getDepVersion 1 tree_project ''/root/packages/a/index'' ''/root'' []
      = Some (Inr ''2.0.0'')"
    by code_simp
  have sB: "segments ''/root/node_modules/@babel/core/src/transform-file-browser''
        @ drop 1 (segments ''foo/bar'')
      = [''root'', ''node_modules'', ''@babel'', ''core'', ''src'', ''transform-file-browser'',
         ''bar'']"
    by code_simp
  have lB: "length (segments ''/root/node_modules/@babel/core/src/transform-file-browser'') = 6"
    by code_simp
  have qB: "\<forall>k. length (segments ''/root/node_modules/@babel/core/src/transform-file-browser'') < k
               \<and> k \<le> length (segments ''/root/node_modules/@babel/core/src/transform-file-browser''
                                @ drop 1 (segments ''foo/bar'')) \<longrightarrow>
             tree_project
               (take k (segments ''/root/node_modules/@babel/core/src/transform-file-browser''
                        @ drop 1 (segments ''foo/bar''))) = None"
  proof (intro allI impI)
    fix k :: nat
    assume "length (segments ''/root/node_modules/@babel/core/src/transform-file-browser'') < k
               \<and> k \<le> length (segments ''/root/node_modules/@babel/core/src/transform-file-browser''
                                @ drop 1 (segments ''foo/bar''))"
    then have "k = 7" unfolding sB lB by simp
    then show "tree_project
               (take k (segments ''/root/node_modules/@babel/core/src/transform-file-browser''
                        @ drop 1 (segments ''foo/bar''))) = None"
      unfolding sB by (simp add: tree_project_def)
  qed
  have hB: "\<not> isAbsolute ''foo/bar''
      \<and> alias_lookup alias_file ''foo/bar''
          = Some (1, ''/root/node_modules/@babel/core/src/transform-file-browser'')
      \<and> isAbsolute ''/root/node_modules/@babel/core/src/transform-file-browser''"
    by code_simp
  have dB: "getDepVersion 1 tree_project
        ''/root/node_modules/@babel/core/src/transform-file-browser'' ''/root'' []
      = Some (Inr ''7.14.0'')"
    by code_simp
  have hC: "\<not> isAbsolute ''foo/bar.js''
      \<and> alias_lookup alias_specifier ''foo/bar.js'' = Some (1, ''@babel/core'')
      \<and> \<not> isAbsolute ''@babel/core'' \<and> alias_lookup alias_specifier ''@babel/core'' = None"
    by code_simp
  have dC: "getDepVersion 1 tree_project ''@babel/core'' ''/root'' [] = Some (Inr ''7.14.0'')"
    by code_simp
  have sD: "segments ''/root/node_modules/lodash'' @ drop 1 (segments ''bar'')
      = segments ''/root/node_modules/lodash''"
    by code_simp
  have qD: "\<forall>k. length (segments ''/root/node_modules/lodash'') < k
               \<and> k \<le> length (segments ''/root/node_modules/lodash''
                                @ drop 1 (segments ''bar'')) \<longrightarrow>
             tree_project
               (take k (segments ''/root/node_modules/lodash'' @ drop 1 (segments ''bar'')))
               = None"
    unfolding sD by auto
  have hD: "\<not> isAbsolute ''foo/x''
      \<and> alias_lookup alias_chain_absolute ''foo/x'' = Some (1, ''bar'') \<and> \<not> isAbsolute ''bar''
      \<and> alias_lookup alias_chain_absolute ''bar'' = Some (1, ''/root/node_modules/lodash'')
      \<and> isAbsolute ''/root/node_modules/lodash''"
    by code_simp
  have dD: "getDepVersion 1 tree_project ''/root/node_modules/lodash'' ''/root'' []
      = Some (Inr ''4.17.21'')"
    by code_simp
  have hE: "\<not> isAbsolute ''foo''
      \<and> alias_lookup alias_chain_specifier ''foo'' = Some (1, ''bar'') \<and> \<not> isAbsolute ''bar''
      \<and> alias_lookup alias_chain_specifier ''bar'' = Some (1, ''lodash'')
      \<and> \<not> isAbsolute ''lodash'' \<and> alias_lookup alias_chain_specifier ''lodash'' = None"
    by code_simp
  have dE: "getDepVersion 1 tree_project ''lodash'' ''/root'' [] = Some (Inr ''4.17.21'')"
    by code_simp
  note TA = alias_resolves_as_target
      [where s = "''pkgs/a/index''" and al = alias_directory and m = 1
         and target = "''/root/packages''" and p = "''/root/packages/a/index''"
         and n = 0 and n' = 0 and t = tree_project and c = "''/root''" and v = "''2.0.0''"]
  note TB = alias_resolves_as_target
      [where s = "''foo/bar''" and al = alias_file and m = 1
         and target = "''/root/node_modules/@babel/core/src/transform-file-browser''"
         and n = 0 and n' = 0 and t = tree_project and c = "''/root''" and v = "''7.14.0''"]
  note TC = alias_resolves_as_target
      [where s = "''foo/bar.js''" and al = alias_specifier and m = 1
         and target = "''@babel/core''"
         and n = 0 and n' = 0 and t = tree_project and c = "''/root''"]
  note TD = alias_resolves_as_target
      [where s = "''foo/x''" and al = alias_chain_absolute and m = 1 and via = "''bar''"
         and m' = 1 and target = "''/root/node_modules/lodash''"
         and n = 0 and n' = 0 and t = tree_project and c = "''/root''" and v = "''4.17.21''"]
  note TE = alias_resolves_as_target
      [where s = "''foo''" and al = alias_chain_specifier and m = 1 and via = "''bar''"
         and m' = 1 and target = "''lodash''"
         and n = 0 and n' = 0 and t = tree_project and c = "''/root''"]
  from TA hA dA have rA: "getDepVersion 1 tree_project ''pkgs/a/index'' ''/root'' alias_directory
      = Some (Inr ''2.0.0'')"
    by simp
  from TB hB qB dB have rB: "getDepVersion 1 tree_project ''foo/bar'' ''/root'' alias_file
      = Some (Inr ''7.14.0'')"
    by simp
  from TC hC dC have rC: "getDepVersion 2 tree_project ''foo/bar.js'' ''/root'' alias_specifier
      = Some (Inr ''7.14.0'')"
    by (simp add: numeral_2_eq_2)
  from TD hD qD dD have rD: "getDepVersion 2 tree_project ''foo/x'' ''/root'' alias_chain_absolute
      = Some (Inr ''4.17.21'')"
    by (simp add: numeral_2_eq_2)
  from TE hE dE have rE: "getDepVersion 3 tree_project ''foo'' ''/root'' alias_chain_specifier
      = Some (Inr ''4.17.21'')"
    by (simp add: numeral_3_eq_3)
  have hF: "\<not> isAbsolute ''foo''
      \<and> alias_lookup alias_chain_directory ''foo'' = Some (1, ''pkgs/a'')
      \<and> \<not> isAbsolute ''pkgs/a''
      \<and> alias_lookup alias_chain_directory ''pkgs/a'' = Some (1, ''/root/packages'')
      \<and> isAbsolute ''/root/packages'' \<and> isAbsolute ''/root/packages/a''
      \<and> segments ''/root/packages/a'' = segments ''/root/packages'' @ drop 1 (segments ''pkgs/a'')"
    by code_simp
  have dF: "getDepVersion 1 tree_project ''/root/packages/a'' ''/root'' [] = Some (Inr ''2.0.0'')"
    by code_simp
  note TF = alias_resolves_as_target
      [where s = "''foo''" and al = alias_chain_directory and m = 1 and via = "''pkgs/a''"
         and m' = 1 and target = "''/root/packages''" and p = "''/root/packages/a''"
         and n = 0 and n' = 0 and t = tree_project and c = "''/root''" and v = "''2.0.0''"]
  from TF hF dF have rF: "getDepVersion 2 tree_project ''foo'' ''/root'' alias_chain_directory
      = Some (Inr ''2.0.0'')"
    by (simp add: numeral_2_eq_2)
  have iB: "tree_project
           (segments ''/root/node_modules/@babel/core/src/transform-file-browser''
            @ drop 1 (segments ''foo/bar'')) = None"
    unfolding sB by (simp add: tree_project_def)
  have iD: "drop 1 (segments ''bar'') = []" by code_simp
  from hA rA dA hB iB rB dB hC rC dC hD iD rD dD hF rF dF hE rE dE show ?thesis by blast
qed

end
